theory Spec2Isabelle
  imports Main "HOL-Library.Word"
begin

section \<open>The outside world of main.cpp\<close>

text \<open>
  main.cpp talks to three things it does not implement: the NVML library (nvml.h), the
  C library (printf, ctime, the system clock, sleep_for) and the C++ implementation
  itself, which decides what a caller reads when a value-returning function ends without
  a return statement. All three are parameters of the model.

  NVML result codes and driver models are C enums, read by the program as int. The values
  below are those of NVIDIA's nvml.h; the program relies on \<open>NVML_SUCCESS\<close> being 0
  (\<open>0 == init()\<close>, \<open>if (d.update())\<close>).
\<close>

type_synonym nvmlReturn_t = int
type_synonym nvmlDriverModel_t = int
type_synonym nvmlDevice_t = nat

definition NVML_SUCCESS :: nvmlReturn_t where
  "NVML_SUCCESS = 0"

definition NVML_ERROR_NOT_SUPPORTED :: nvmlReturn_t where
  "NVML_ERROR_NOT_SUPPORTED = 3"

definition NVML_ERROR_NO_PERMISSION :: nvmlReturn_t where
  "NVML_ERROR_NO_PERMISSION = 4"

definition NVML_ERROR_DRIVER_NOT_LOADED :: nvmlReturn_t where
  "NVML_ERROR_DRIVER_NOT_LOADED = 9"

definition NVML_ERROR_UNKNOWN :: nvmlReturn_t where
  "NVML_ERROR_UNKNOWN = 999"

definition NVML_DRIVER_WDDM :: nvmlDriverModel_t where
  "NVML_DRIVER_WDDM = 0"

text \<open>
  \<open>nvmlUtilization_t\<close> has the fields gpu and memory, \<open>nvmlMemory_t\<close> the fields
  total, free and used (unsigned long long). Two of the names are taken (by the device's
  own memory field and by a constant of HOL) and carry a suffix here.
\<close>

record nvmlUtilization_t =
  gpu :: "32 word"
  memory_rate :: "32 word"

record nvmlMemory_t =
  total_bytes :: "64 word"
  free :: "64 word"
  used :: "64 word"

text \<open>
  Everything the process does to the outside is an event, and the state of the outside
  world is the list of the events so far, oldest first. A call of the library is logged
  with its arguments, its result code and what it left in its out-parameters.
\<close>

datatype event =
    Call_nvmlInit nvmlReturn_t
  | Call_nvmlShutdown nvmlReturn_t
  | Call_nvmlSystemGetDriverVersion nvmlReturn_t string
  | Call_nvmlDeviceGetCount nvmlReturn_t "32 word"
  | Call_nvmlDeviceGetHandleByIndex int nvmlReturn_t nvmlDevice_t
  | Call_nvmlDeviceGetName nvmlDevice_t nvmlReturn_t string
  | Call_nvmlDeviceGetDriverModel nvmlDevice_t nvmlReturn_t nvmlDriverModel_t nvmlDriverModel_t
  | Call_nvmlDeviceGetFanSpeed nvmlDevice_t nvmlReturn_t "32 word"
  | Call_nvmlDeviceGetMemoryInfo nvmlDevice_t nvmlReturn_t nvmlMemory_t
  | Call_nvmlDeviceGetPowerUsage nvmlDevice_t nvmlReturn_t "32 word"
  | Call_nvmlDeviceGetTemperature nvmlDevice_t nvmlReturn_t "32 word"
  | Call_nvmlDeviceGetUtilizationRates nvmlDevice_t nvmlReturn_t nvmlUtilization_t
  | Printf string
  | Ctime string
  | Sleep_for nat

text \<open>
  The environment answers every call as a function of the history, so that telemetry may
  change from one cycle to the next and any call may start to fail at any time. A call
  with an out-parameter passed by pointer also receives what the pointer holds and
  returns what it holds afterwards (a library may leave it alone when it fails). The two
  string queries fill a fresh 256-byte buffer; their answer is the C string found in it.

  \<open>ctime_now\<close> is \<open>ctime\<close> of the system clock. \<open>no_return_value\<close> is what the
  caller of \<open>GPUDevice::update\<close> reads when that function runs to its closing brace:
  the function is declared int and has no return statement there, so the language gives
  the value no meaning and the model leaves it to the environment. The model assumes that
  nothing else happens at that point. An optimising compiler may instead let control run
  on into the code of the last \<open>checkError\<close> (its message and its shutdown call), so
  a statement that counts the events of a run holds of the program only for runs in
  which no update reaches that point, and says so in its hypotheses.
\<close>

record environment =
  nvmlInit :: "event list \<Rightarrow> nvmlReturn_t"
  nvmlShutdown :: "event list \<Rightarrow> nvmlReturn_t"
  nvmlSystemGetDriverVersion :: "event list \<Rightarrow> nvmlReturn_t \<times> string"
  nvmlDeviceGetCount :: "event list \<Rightarrow> 32 word \<Rightarrow> nvmlReturn_t \<times> 32 word"
  nvmlDeviceGetHandleByIndex ::
    "event list \<Rightarrow> int \<Rightarrow> nvmlDevice_t \<Rightarrow> nvmlReturn_t \<times> nvmlDevice_t"
  nvmlDeviceGetName :: "event list \<Rightarrow> nvmlDevice_t \<Rightarrow> nvmlReturn_t \<times> string"
  nvmlDeviceGetDriverModel ::
    "event list \<Rightarrow> nvmlDevice_t \<Rightarrow> nvmlDriverModel_t \<Rightarrow> nvmlDriverModel_t
      \<Rightarrow> nvmlReturn_t \<times> nvmlDriverModel_t \<times> nvmlDriverModel_t"
  nvmlDeviceGetFanSpeed ::
    "event list \<Rightarrow> nvmlDevice_t \<Rightarrow> 32 word \<Rightarrow> nvmlReturn_t \<times> 32 word"
  nvmlDeviceGetMemoryInfo ::
    "event list \<Rightarrow> nvmlDevice_t \<Rightarrow> nvmlMemory_t \<Rightarrow> nvmlReturn_t \<times> nvmlMemory_t"
  nvmlDeviceGetPowerUsage ::
    "event list \<Rightarrow> nvmlDevice_t \<Rightarrow> 32 word \<Rightarrow> nvmlReturn_t \<times> 32 word"
  nvmlDeviceGetTemperature ::
    "event list \<Rightarrow> nvmlDevice_t \<Rightarrow> 32 word \<Rightarrow> nvmlReturn_t \<times> 32 word"
  nvmlDeviceGetUtilizationRates ::
    "event list \<Rightarrow> nvmlDevice_t \<Rightarrow> nvmlUtilization_t \<Rightarrow> nvmlReturn_t \<times> nvmlUtilization_t"
  ctime_now :: "event list \<Rightarrow> string"
  no_return_value :: "event list \<Rightarrow> int"

section \<open>printf conversions\<close>

text \<open>
  The conversions the program uses: \<open>%d\<close>, \<open>%2d\<close>, \<open>%3d\<close> and \<open>%5d\<close> (decimal,
  right-aligned in the field width). An unsigned argument printed with \<open>%d\<close> is read
  as a signed int.
\<close>

function show_nat :: "nat \<Rightarrow> string" where
  "show_nat n =
     (if n < 10 then [''0123456789'' ! n]
      else show_nat (n div 10) @ [''0123456789'' ! (n mod 10)])"
  by pat_completeness auto
termination
  by (relation "measure id") auto

declare show_nat.simps [simp del]

definition show_int :: "int \<Rightarrow> string" where
  "show_int i = (if i < 0 then ''-'' @ show_nat (nat (- i)) else show_nat (nat i))"

definition fmt_d :: "nat \<Rightarrow> int \<Rightarrow> string" where
  "fmt_d width i = replicate (width - length (show_int i)) (CHR '' '') @ show_int i"

section \<open>checkError\<close>

text \<open>
  The macro of lines 11 to 16. When the code is not \<open>NVML_SUCCESS\<close> it prints a
  message with the line of its use, calls \<open>nvmlShutdown\<close> and makes the enclosing
  function return the code: the model returns the new history in \<open>Some\<close>, and the
  caller returns \<open>err\<close>. Otherwise (\<open>None\<close>) the enclosing function goes on.
\<close>

definition checkError :: "environment \<Rightarrow> int \<Rightarrow> nvmlReturn_t \<Rightarrow> event list \<Rightarrow> event list option" where
  "checkError E line err w =
     (if err \<noteq> NVML_SUCCESS then
        (let w = w @ [Printf (''ERROR: An error has occurred on line '' @ show_int line @
                       ''. Error code: '' @ show_int err @ ''. Terminating!\<newline>'')];
             w = w @ [Call_nvmlShutdown (nvmlShutdown E w)]
         in Some w)
      else None)"

section \<open>GPUDevice\<close>

record GPUDevice =
  index :: int
  name :: string
  fanSpeed :: "32 word"
  power_fld :: "32 word"
  temperature :: "32 word"
  utilization :: nvmlUtilization_t
  dmCurrent :: nvmlDriverModel_t
  dmPending :: nvmlDriverModel_t
  memory :: nvmlMemory_t
  handle :: nvmlDevice_t

text \<open>
  The constructor zeroes the whole object (memset), the \<open>std::string\<close> member
  included. The model takes the name of such a device to be the empty string; the real
  object holds zeroed bytes that are not a valid string, and what reading or printing it
  gives before \<open>init\<close> has assigned a name is outside the model.
\<close>

definition GPUDevice_ctor :: GPUDevice where
  "GPUDevice_ctor =
     \<lparr>index = 0, name = [], fanSpeed = 0, power_fld = 0, temperature = 0,
      utilization = \<lparr>gpu = 0, memory_rate = 0\<rparr>, dmCurrent = 0, dmPending = 0,
      memory = \<lparr>total_bytes = 0, free = 0, used = 0\<rparr>, handle = 0\<rparr>"

text \<open>
  \<open>GPUDevice::update\<close>, lines 70 to 97. It returns the code of the first required
  query that fails (through \<open>checkError\<close>); a failed fan or power query stores
  \<open>unsigned(-1)\<close> and resets the code. After the last \<open>checkError\<close> the body ends
  with no return statement.
\<close>

definition GPUDevice_update :: "environment \<Rightarrow> GPUDevice \<Rightarrow> event list \<Rightarrow> int \<times> GPUDevice \<times> event list" where
  "GPUDevice_update E d w =
     (let (res, v) = nvmlDeviceGetFanSpeed E w (handle d) (fanSpeed d);
          w = w @ [Call_nvmlDeviceGetFanSpeed (handle d) res v];
          d = d\<lparr>fanSpeed := v\<rparr>;
          (d, res) = (if res \<noteq> NVML_SUCCESS then (d\<lparr>fanSpeed := - 1\<rparr>, NVML_SUCCESS) else (d, res))
      in case checkError E 78 res w of Some w \<Rightarrow> (res, d, w) | None \<Rightarrow>
     (let (res, v) = nvmlDeviceGetMemoryInfo E w (handle d) (memory d);
          w = w @ [Call_nvmlDeviceGetMemoryInfo (handle d) res v];
          d = d\<lparr>memory := v\<rparr>
      in case checkError E 81 res w of Some w \<Rightarrow> (res, d, w) | None \<Rightarrow>
     (let (res, v) = nvmlDeviceGetPowerUsage E w (handle d) (power_fld d);
          w = w @ [Call_nvmlDeviceGetPowerUsage (handle d) res v];
          d = d\<lparr>power_fld := v\<rparr>;
          (d, res) = (if res \<noteq> NVML_SUCCESS then (d\<lparr>power_fld := - 1\<rparr>, NVML_SUCCESS)
                      else (d\<lparr>power_fld := power_fld d div 1000\<rparr>, res))
      in case checkError E 90 res w of Some w \<Rightarrow> (res, d, w) | None \<Rightarrow>
     (let (res, v) = nvmlDeviceGetTemperature E w (handle d) (temperature d);
          w = w @ [Call_nvmlDeviceGetTemperature (handle d) res v];
          d = d\<lparr>temperature := v\<rparr>
      in case checkError E 93 res w of Some w \<Rightarrow> (res, d, w) | None \<Rightarrow>
     (let (res, v) = nvmlDeviceGetUtilizationRates E w (handle d) (utilization d);
          w = w @ [Call_nvmlDeviceGetUtilizationRates (handle d) res v];
          d = d\<lparr>utilization := v\<rparr>
      in case checkError E 96 res w of Some w \<Rightarrow> (res, d, w) | None \<Rightarrow>
         (no_return_value E w, d, w))))))"

text \<open>
  The padding of lines 53 to 60: the loop appends one space at a time while the size is
  not 22, and runs only under the test that the size is below 22. Each round keeps the
  size at most 22, so the test is repeated in the recursion without changing a run.
\<close>

definition GPU_NAME_TEXT_FIELD_SIZE :: nat where
  "GPU_NAME_TEXT_FIELD_SIZE = 22"

function pad_name :: "string \<Rightarrow> string" where
  "pad_name n =
     (if length n \<noteq> GPU_NAME_TEXT_FIELD_SIZE then
        (if length n < GPU_NAME_TEXT_FIELD_SIZE then pad_name (n @ '' '') else n)
      else n)"
  by pat_completeness auto
termination
  by (relation "measure (\<lambda>n. GPU_NAME_TEXT_FIELD_SIZE - length n)") auto

declare pad_name.simps [simp del]

text \<open>
  The loop of lines 56 to 58 on its own, exactly as written: started on a name longer than
  22 it would never stop, so not returning is the value \<open>None\<close>. Under the test of
  line 55 it returns what \<open>pad_name\<close> returns (lemma \<open>append_while_pad_name\<close>).
\<close>

partial_function (option) append_while :: "string \<Rightarrow> string option" where
  "append_while n =
     (if length n \<noteq> GPU_NAME_TEXT_FIELD_SIZE then append_while (n @ '' '') else Some n)"

text \<open>\<open>GPUDevice::init\<close>, lines 44 to 68.\<close>

definition GPUDevice_init :: "environment \<Rightarrow> GPUDevice \<Rightarrow> event list \<Rightarrow> int \<times> GPUDevice \<times> event list" where
  "GPUDevice_init E d w =
     (let (res, h) = nvmlDeviceGetHandleByIndex E w (index d) (handle d);
          w = w @ [Call_nvmlDeviceGetHandleByIndex (index d) res h];
          d = d\<lparr>handle := h\<rparr>
      in case checkError E 47 res w of Some w \<Rightarrow> (res, d, w) | None \<Rightarrow>
     (let (res, temp) = nvmlDeviceGetName E w (handle d);
          w = w @ [Call_nvmlDeviceGetName (handle d) res temp]
      in case checkError E 50 res w of Some w \<Rightarrow> (res, d, w) | None \<Rightarrow>
     (let d = d\<lparr>name := temp\<rparr>;
          d = d\<lparr>name := pad_name (name d)\<rparr>;
          (res, cur, pend) = nvmlDeviceGetDriverModel E w (handle d) (dmCurrent d) (dmPending d);
          w = w @ [Call_nvmlDeviceGetDriverModel (handle d) res cur pend];
          d = d\<lparr>dmCurrent := cur, dmPending := pend\<rparr>;
          w = (if res \<noteq> NVML_SUCCESS
               then w @ [Printf ''init[65] ERROR: Could not obtain Driver Model\<newline>'']
               else w)
      in GPUDevice_update E d w)))"

text \<open>
  \<open>GPUDevice::print\<close>, lines 181 to 202. \<open>snprintf\<close> into a buffer of 10 bytes
  keeps at most 9 characters. The two memory arguments are 64-bit values printed with
  \<open>%5d\<close>: the low 32 bits are shown, as a signed int.
\<close>

definition GPUDevice_print :: "GPUDevice \<Rightarrow> event list \<Rightarrow> event list" where
  "GPUDevice_print d w =
     (let driverMode = (if dmCurrent d = NVML_DRIVER_WDDM then ''WDDM'' else ''TCC '');
          fan = (if fanSpeed d \<noteq> - 1
                 then take 9 ('' '' @ fmt_d 3 (sint (fanSpeed d)) @ ''%'')
                 else take 9 '' N/A '');
          pow = (if power_fld d \<noteq> - 1
                 then take 9 ('' '' @ fmt_d 3 (sint (power_fld d)) @ ''W'')
                 else take 9 '' N/A '')
      in w @ [Printf (''| '' @ fmt_d 2 (index d) @ '' '' @ name d @ ''  '' @ driverMode @ '' | '' @
                fmt_d 5 (sint (ucast (used (memory d) div (1024 * 1024)) :: 32 word)) @ '' / '' @
                fmt_d 5 (sint (ucast (total_bytes (memory d) div (1024 * 1024)) :: 32 word)) @
                '' | '' @ fmt_d 3 (sint (temperature d)) @ ''C '' @ fan @ ''   '' @ pow @ ''   '' @
                fmt_d 3 (sint (gpu (utilization d))) @ ''% |\<newline>'')])"

section \<open>DeviceManager\<close>

record DeviceManager =
  driverVersion :: string
  numDevices :: "32 word"
  devices :: "GPUDevice list"
  valid :: bool

text \<open>\<open>std::vector::resize\<close>: new slots are default-constructed devices.\<close>

definition resize :: "nat \<Rightarrow> GPUDevice list \<Rightarrow> GPUDevice list" where
  "resize n ds = take n ds @ replicate (n - length ds) GPUDevice_ctor"

text \<open>
  The enumeration loop of lines 133 to 137, with \<open>n\<close> the value of \<open>numDevices\<close>.
  The counter is a C int, read here as a mathematical integer (it stays below any device
  count a machine can hold). The result of \<open>d.init()\<close> is dropped, as in the source.
\<close>

function init_loop ::
  "environment \<Rightarrow> nat \<Rightarrow> nat \<Rightarrow> GPUDevice list \<Rightarrow> event list \<Rightarrow> GPUDevice list \<times> event list" where
  "init_loop E i n ds w =
     (if i < n then
        (let d = ds ! i;
             d = d\<lparr>index := int i\<rparr>;
             (r, d, w) = GPUDevice_init E d w
         in init_loop E (i + 1) n (ds[i := d]) w)
      else (ds, w))"
  by pat_completeness auto
termination
  by (relation "measure (\<lambda>(E, i, n, ds, w). n - i)") auto

declare init_loop.simps [simp del]

text \<open>\<open>DeviceManager::init\<close>, lines 114 to 140.\<close>

definition DeviceManager_init ::
  "environment \<Rightarrow> DeviceManager \<Rightarrow> event list \<Rightarrow> int \<times> DeviceManager \<times> event list" where
  "DeviceManager_init E m w =
     (let err = nvmlInit E w;
          w = w @ [Call_nvmlInit err]
      in if err = NVML_ERROR_DRIVER_NOT_LOADED then
           (0, m, w @ [Printf ''ERROR: NVidia driver is not running. Initialization failed.\<newline>''])
         else if err = NVML_ERROR_NO_PERMISSION then
           (0, m, w @ [Printf ''ERROR: NVML does not have permission to talk to the driver. Initialization failed.\<newline>''])
         else if err = NVML_ERROR_UNKNOWN then
           (0, m, w @ [Printf ''ERROR: NVML encounted an unexpected error during initialization. Initialization failed.\<newline>''])
         else if err = NVML_SUCCESS then
           (let (err, temp) = nvmlSystemGetDriverVersion E w;
                w = w @ [Call_nvmlSystemGetDriverVersion err temp]
            in case checkError E 126 err w of Some w \<Rightarrow> (err, m, w) | None \<Rightarrow>
           (let m = m\<lparr>driverVersion := temp\<rparr>;
                (err, n) = nvmlDeviceGetCount E w (numDevices m);
                w = w @ [Call_nvmlDeviceGetCount err n];
                m = m\<lparr>numDevices := n\<rparr>
            in case checkError E 130 err w of Some w \<Rightarrow> (err, m, w) | None \<Rightarrow>
           (let m = m\<lparr>devices := resize (unat (numDevices m)) (devices m)\<rparr>;
                (ds, w) = init_loop E 0 (unat (numDevices m)) (devices m) w
            in (0, m\<lparr>devices := ds\<rparr>, w))))
         else (0, m, w))"

text \<open>The constructor, lines 141 to 149, and the destructor, lines 151 to 154.\<close>

definition DeviceManager_ctor :: "environment \<Rightarrow> event list \<Rightarrow> DeviceManager \<times> event list" where
  "DeviceManager_ctor E w =
     (let m = \<lparr>driverVersion = ''Unknown'', numDevices = 0, devices = [], valid = False\<rparr>;
          (r, m, w) = DeviceManager_init E m w
      in if 0 = r then (m\<lparr>valid := True\<rparr>, w) else (m, w))"

definition DeviceManager_dtor :: "environment \<Rightarrow> event list \<Rightarrow> event list" where
  "DeviceManager_dtor E w = w @ [Call_nvmlShutdown (nvmlShutdown E w)]"

definition isValid :: "DeviceManager \<Rightarrow> bool" where
  "isValid m = valid m"

text \<open>
  \<open>DeviceManager::update\<close>, lines 156 to 164: the loop over the devices stops at the
  first device whose update returns a non-zero value, after clearing \<open>valid\<close>.
\<close>

fun update_loop ::
  "environment \<Rightarrow> GPUDevice list \<Rightarrow> bool \<Rightarrow> event list \<Rightarrow> GPUDevice list \<times> bool \<times> event list" where
  "update_loop E [] v w = ([], v, w)"
| "update_loop E (d # ds) v w =
     (let (r, d, w) = GPUDevice_update E d w
      in if r \<noteq> 0 then (d # ds, False, w)
         else (let (ds, v, w) = update_loop E ds v w in (d # ds, v, w)))"

definition DeviceManager_update ::
  "environment \<Rightarrow> DeviceManager \<Rightarrow> event list \<Rightarrow> int \<times> DeviceManager \<times> event list" where
  "DeviceManager_update E m w =
     (let (ds, v, w) = update_loop E (devices m) (valid m) w;
          m = m\<lparr>devices := ds, valid := v\<rparr>
      in ((if valid m then 0 else 1), m, w))"

text \<open>
  \<open>DeviceManager::print\<close>, lines 166 to 179. The first line printed is \<open>ctime\<close> of
  the current time.
\<close>

definition DeviceManager_print :: "environment \<Rightarrow> DeviceManager \<Rightarrow> event list \<Rightarrow> event list" where
  "DeviceManager_print E m w =
     (let hrTime = ctime_now E w;
          w = w @ [Ctime hrTime];
          w = w @ [Printf hrTime];
          w = w @ [Printf ''+-----------------------------------------------------------------------------+\<newline>''];
          w = w @ [Printf (''|             NVidia driver version: '' @ driverVersion m @
                     ''       Device count : '' @ fmt_d 2 (sint (numDevices m)) @
                     ''           |\<newline>'')];
          w = w @ [Printf ''|---------------------------------+---------------+---------------------------+\<newline>''];
          w = w @ [Printf ''| Idx    Name            TCC/WDDM | Memory-usage  | Temp   Fan   Power  Util  |\<newline>''];
          w = w @ [Printf ''+-----------------------------------------------------------------------------+\<newline>''];
          w = foldl (\<lambda>w d. GPUDevice_print d w) w (devices m);
          w = w @ [Printf ''+-----------------------------------------------------------------------------+\<newline>'']
      in w)"

section \<open>The process\<close>

text \<open>
  \<open>moveCursorTo\<close>, lines 222 to 224 (the branch for systems other than Windows,
  which writes an escape sequence).
\<close>

definition moveCursorTo :: "int \<Rightarrow> int \<Rightarrow> event list \<Rightarrow> event list" where
  "moveCursorTo x y w =
     w @ [Printf ([CHR 0x1B] @ ''['' @ show_int (y + 1) @ '';'' @ show_int (x + 1) @ ''H'')]"

text \<open>
  \<open>main\<close>, lines 231 to 240. \<open>main_body\<close> is one round of the loop, lines 234
  to 237. The loop runs while the manager is valid and may run forever: not returning is
  the value \<open>None\<close>. When the loop ends, main returns 0 and the manager is destroyed.
  The process starts with an empty history.
\<close>

definition main_body :: "environment \<Rightarrow> DeviceManager \<Rightarrow> event list \<Rightarrow> DeviceManager \<times> event list" where
  "main_body E devMan w =
     (let w = moveCursorTo 0 0 w;
          w = DeviceManager_print E devMan w;
          w = w @ [Sleep_for 500];
          (r, devMan, w) = DeviceManager_update E devMan w
      in (devMan, w))"

partial_function (option) main_loop ::
  "environment \<Rightarrow> DeviceManager \<Rightarrow> event list \<Rightarrow> (DeviceManager \<times> event list) option" where
  "main_loop E devMan w =
     (if isValid devMan then
        (let (devMan, w) = main_body E devMan w in main_loop E devMan w)
      else Some (devMan, w))"

definition main :: "environment \<Rightarrow> (int \<times> event list) option" where
  "main E =
     (let (devMan, w) = DeviceManager_ctor E []
      in case main_loop E devMan w of
           None \<Rightarrow> None
         | Some (devMan, w) \<Rightarrow> Some (0, DeviceManager_dtor E w))"

section \<open>Notions used in the statements\<close>

text \<open>The two events of a \<open>checkError\<close> that fires: its message and the shutdown.\<close>

definition error_events :: "environment \<Rightarrow> int \<Rightarrow> nvmlReturn_t \<Rightarrow> event list \<Rightarrow> event list" where
  "error_events E line err w =
     [Printf (''ERROR: An error has occurred on line '' @ show_int line @
              ''. Error code: '' @ show_int err @ ''. Terminating!\<newline>''),
      Call_nvmlShutdown (nvmlShutdown E (w @
        [Printf (''ERROR: An error has occurred on line '' @ show_int line @
                 ''. Error code: '' @ show_int err @ ''. Terminating!\<newline>'')]))]"

text \<open>
  A fatal failure is a failed call whose result goes through \<open>checkError\<close>. The fan
  and power queries, the driver-model query and \<open>nvmlInit\<close> never do. \<open>excess\<close> is
  the number of shutdown calls of a history beyond its fatal failures.
\<close>

fun is_shutdown :: "event \<Rightarrow> bool" where
  "is_shutdown (Call_nvmlShutdown r) = True"
| "is_shutdown _ = False"

fun fatal_failure :: "event \<Rightarrow> bool" where
  "fatal_failure (Call_nvmlSystemGetDriverVersion r s) = (r \<noteq> NVML_SUCCESS)"
| "fatal_failure (Call_nvmlDeviceGetCount r n) = (r \<noteq> NVML_SUCCESS)"
| "fatal_failure (Call_nvmlDeviceGetHandleByIndex i r h) = (r \<noteq> NVML_SUCCESS)"
| "fatal_failure (Call_nvmlDeviceGetName h r s) = (r \<noteq> NVML_SUCCESS)"
| "fatal_failure (Call_nvmlDeviceGetMemoryInfo h r v) = (r \<noteq> NVML_SUCCESS)"
| "fatal_failure (Call_nvmlDeviceGetTemperature h r v) = (r \<noteq> NVML_SUCCESS)"
| "fatal_failure (Call_nvmlDeviceGetUtilizationRates h r v) = (r \<noteq> NVML_SUCCESS)"
| "fatal_failure _ = False"

definition excess :: "event list \<Rightarrow> int" where
  "excess tr = int (length (filter is_shutdown tr)) - int (length (filter fatal_failure tr))"

text \<open>
  A machine with one GPU on which every call succeeds, except the driver-model query
  (unsupported off Windows); a function that ends without returning gives 0.
\<close>

definition healthy :: environment where
  "healthy =
     \<lparr>nvmlInit = (\<lambda>w. NVML_SUCCESS),
      nvmlShutdown = (\<lambda>w. NVML_SUCCESS),
      nvmlSystemGetDriverVersion = (\<lambda>w. (NVML_SUCCESS, ''535.104'')),
      nvmlDeviceGetCount = (\<lambda>w old. (NVML_SUCCESS, 1)),
      nvmlDeviceGetHandleByIndex = (\<lambda>w i old. (NVML_SUCCESS, nat i + 1)),
      nvmlDeviceGetName = (\<lambda>w h. (NVML_SUCCESS, ''Tesla K80'')),
      nvmlDeviceGetDriverModel = (\<lambda>w h cur pend. (NVML_ERROR_NOT_SUPPORTED, cur, pend)),
      nvmlDeviceGetFanSpeed = (\<lambda>w h old. (NVML_SUCCESS, 35)),
      nvmlDeviceGetMemoryInfo = (\<lambda>w h old. (NVML_SUCCESS,
         \<lparr>total_bytes = 8589934592, free = 6442450944, used = 2147483648\<rparr>)),
      nvmlDeviceGetPowerUsage = (\<lambda>w h old. (NVML_SUCCESS, 15000)),
      nvmlDeviceGetTemperature = (\<lambda>w h old. (NVML_SUCCESS, 54)),
      nvmlDeviceGetUtilizationRates = (\<lambda>w h old. (NVML_SUCCESS, \<lparr>gpu = 97, memory_rate = 40\<rparr>)),
      ctime_now = (\<lambda>w. ''Fri Oct 30 04:41:00 2026\<newline>''),
      no_return_value = (\<lambda>w. 0)\<rparr>"

text \<open>
  The same machine with a GPU that has no fan sensor, under an implementation where the
  caller of a function that ends without returning reads 1.
\<close>

definition fanless :: environment where
  "fanless = healthy\<lparr>nvmlDeviceGetFanSpeed := (\<lambda>w h old. (NVML_ERROR_NOT_SUPPORTED, old)),
                      no_return_value := (\<lambda>w. 1)\<rparr>"

text \<open>
  A manager with three devices, as enumeration leaves them before any refresh, and a
  machine on which the temperature sensor of the second one (handle 2) does not answer.
\<close>

definition three_gpus :: DeviceManager where
  "three_gpus =
     \<lparr>driverVersion = ''535.104'', numDevices = 3,
      devices = [GPUDevice_ctor\<lparr>index := 0, handle := 1\<rparr>,
                 GPUDevice_ctor\<lparr>index := 1, handle := 2\<rparr>,
                 GPUDevice_ctor\<lparr>index := 2, handle := 3\<rparr>],
      valid = True\<rparr>"

definition second_sensor_broken :: environment where
  "second_sensor_broken =
     healthy\<lparr>nvmlDeviceGetTemperature :=
       (\<lambda>w h old. if h = 2 then (NVML_ERROR_UNKNOWN, old) else (NVML_SUCCESS, 54))\<rparr>"

text \<open>
  The events a device method can add to the history (its own queries, messages and the
  shutdown of \<open>checkError\<close>), and the failed system queries of \<open>DeviceManager::init\<close>.
\<close>

fun device_event :: "event \<Rightarrow> bool" where
  "device_event (Call_nvmlInit r) = False"
| "device_event (Call_nvmlSystemGetDriverVersion r s) = False"
| "device_event (Call_nvmlDeviceGetCount r n) = False"
| "device_event (Ctime s) = False"
| "device_event (Sleep_for n) = False"
| "device_event _ = True"

fun sys_query_failed :: "event \<Rightarrow> bool" where
  "sys_query_failed (Call_nvmlSystemGetDriverVersion r s) = (r \<noteq> NVML_SUCCESS)"
| "sys_query_failed (Call_nvmlDeviceGetCount r n) = (r \<noteq> NVML_SUCCESS)"
| "sys_query_failed _ = False"

text \<open>\<open>rounds E n\<close> runs the body of the loop of main \<open>n\<close> times.\<close>

fun rounds :: "environment \<Rightarrow> nat \<Rightarrow> DeviceManager \<times> event list \<Rightarrow> DeviceManager \<times> event list" where
  "rounds E 0 s = s"
| "rounds E (Suc n) s = rounds E n (main_body E (fst s) (snd s))"

text \<open>
  Machines on which the handle lookup fails for every index, on which the driver is not
  loaded, and on which the device count cannot be read.
\<close>

definition no_handles :: environment where
  "no_handles = healthy\<lparr>nvmlDeviceGetHandleByIndex := (\<lambda>w i old. (NVML_ERROR_UNKNOWN, old))\<rparr>"

definition no_driver :: environment where
  "no_driver = healthy\<lparr>nvmlInit := (\<lambda>w. NVML_ERROR_DRIVER_NOT_LOADED)\<rparr>"

definition no_count :: environment where
  "no_count = healthy\<lparr>nvmlDeviceGetCount := (\<lambda>w old. (NVML_ERROR_UNKNOWN, old))\<rparr>"

text \<open>
  A machine with three GPUs, and one whose temperature sensor stops answering once the
  process has slept for the first time.
\<close>

definition three_gpu_machine :: environment where
  "three_gpu_machine = healthy\<lparr>nvmlDeviceGetCount := (\<lambda>w old. (NVML_SUCCESS, 3))\<rparr>"

definition overheats :: environment where
  "overheats =
     healthy\<lparr>nvmlDeviceGetTemperature :=
       (\<lambda>w h old. if Sleep_for 500 \<in> set w then (NVML_ERROR_UNKNOWN, old) else (NVML_SUCCESS, 54))\<rparr>"

text \<open>
  Calls of the library among the events; the text an event writes to standard output;
  the text one call of \<open>DeviceManager::print\<close> writes; and the events it adds after
  the time line.
\<close>

fun library_call :: "event \<Rightarrow> bool" where
  "library_call (Printf s) = False"
| "library_call (Ctime s) = False"
| "library_call (Sleep_for n) = False"
| "library_call _ = True"

fun printed :: "event \<Rightarrow> string" where
  "printed (Printf s) = s"
| "printed _ = []"

definition stdout_text :: "event list \<Rightarrow> string" where
  "stdout_text tr = concat (map printed tr)"

definition rendered :: "environment \<Rightarrow> DeviceManager \<Rightarrow> event list \<Rightarrow> string" where
  "rendered E m w = drop (length (stdout_text w)) (stdout_text (DeviceManager_print E m w))"

definition table_events :: "DeviceManager \<Rightarrow> event list" where
  "table_events m = drop 2 (DeviceManager_print healthy m [])"

text \<open>A machine whose clock has moved on by a second once anything has happened.\<close>

definition ticking :: environment where
  "ticking =
     healthy\<lparr>ctime_now := (\<lambda>w. if w = [] then ''Fri Oct 30 04:41:00 2026\<newline>''
                              else ''Fri Oct 30 04:41:01 2026\<newline>'')\<rparr>"

text \<open>
  An update ran to the end of its body exactly when its last query, the utilization
  query, succeeded. A decisive event is a fatal failure or such a completion: every call
  of \<open>update\<close> adds one.
\<close>

fun update_completed :: "event \<Rightarrow> bool" where
  "update_completed (Call_nvmlDeviceGetUtilizationRates h r v) = (r = NVML_SUCCESS)"
| "update_completed _ = False"

definition decisive :: "event \<Rightarrow> bool" where
  "decisive e = (fatal_failure e \<or> update_completed e)"

text \<open>A machine whose temperature sensor never answers: no update runs to its end.\<close>

definition sensor_dead :: environment where
  "sensor_dead =
     healthy\<lparr>nvmlDeviceGetTemperature := (\<lambda>w h old. (NVML_ERROR_UNKNOWN, old))\<rparr>"

section \<open>Running the model on a machine\<close>

lemmas eval_defs = DeviceManager_ctor_def DeviceManager_init_def GPUDevice_init_def GPUDevice_update_def
  checkError_def Let_def resize_def GPUDevice_ctor_def init_loop.simps
  NVML_SUCCESS_def NVML_ERROR_UNKNOWN_def NVML_ERROR_NOT_SUPPORTED_def
  NVML_ERROR_DRIVER_NOT_LOADED_def NVML_ERROR_NO_PERMISSION_def

lemmas eval_main_defs = main_body_def moveCursorTo_def DeviceManager_print_def GPUDevice_print_def
  DeviceManager_update_def DeviceManager_dtor_def isValid_def

section \<open>Lemmas about one device\<close>

lemma checkError_0 [simp]: "checkError E line 0 w = None"
  by (simp add: checkError_def NVML_SUCCESS_def)

lemma checkError_fired: "err \<noteq> 0 \<Longrightarrow> checkError E line err w = Some (w @ error_events E line err w)"
  by (simp add: checkError_def NVML_SUCCESS_def error_events_def Let_def)

lemma GPUDevice_update_unfold:
  assumes a1: "nvmlDeviceGetFanSpeed E w (handle d) (fanSpeed d) = (r1, v1)"
  assumes a2: "nvmlDeviceGetMemoryInfo E (w @ [Call_nvmlDeviceGetFanSpeed (handle d) r1 v1]) (handle d) (memory d) = (r2, v2)"
  assumes a3: "nvmlDeviceGetPowerUsage E (w @ [Call_nvmlDeviceGetFanSpeed (handle d) r1 v1, Call_nvmlDeviceGetMemoryInfo (handle d) r2 v2]) (handle d) (power_fld d) = (r3, v3)"
  assumes a4: "nvmlDeviceGetTemperature E (w @ [Call_nvmlDeviceGetFanSpeed (handle d) r1 v1, Call_nvmlDeviceGetMemoryInfo (handle d) r2 v2, Call_nvmlDeviceGetPowerUsage (handle d) r3 v3]) (handle d) (temperature d) = (r4, v4)"
  assumes a5: "nvmlDeviceGetUtilizationRates E (w @ [Call_nvmlDeviceGetFanSpeed (handle d) r1 v1, Call_nvmlDeviceGetMemoryInfo (handle d) r2 v2, Call_nvmlDeviceGetPowerUsage (handle d) r3 v3, Call_nvmlDeviceGetTemperature (handle d) r4 v4]) (handle d) (utilization d) = (r5, v5)"
  shows "GPUDevice_update E d w =
    (if r2 \<noteq> 0 then
       (r2, d\<lparr>fanSpeed := (if r1 \<noteq> 0 then - 1 else v1), memory := v2\<rparr>,
        w @ [Call_nvmlDeviceGetFanSpeed (handle d) r1 v1, Call_nvmlDeviceGetMemoryInfo (handle d) r2 v2] @
        error_events E 81 r2 (w @ [Call_nvmlDeviceGetFanSpeed (handle d) r1 v1, Call_nvmlDeviceGetMemoryInfo (handle d) r2 v2]))
     else if r4 \<noteq> 0 then
       (r4, d\<lparr>fanSpeed := (if r1 \<noteq> 0 then - 1 else v1), memory := v2,
               power_fld := (if r3 \<noteq> 0 then - 1 else v3 div 1000), temperature := v4\<rparr>,
        w @ [Call_nvmlDeviceGetFanSpeed (handle d) r1 v1, Call_nvmlDeviceGetMemoryInfo (handle d) r2 v2, Call_nvmlDeviceGetPowerUsage (handle d) r3 v3, Call_nvmlDeviceGetTemperature (handle d) r4 v4] @
        error_events E 93 r4 (w @ [Call_nvmlDeviceGetFanSpeed (handle d) r1 v1, Call_nvmlDeviceGetMemoryInfo (handle d) r2 v2, Call_nvmlDeviceGetPowerUsage (handle d) r3 v3, Call_nvmlDeviceGetTemperature (handle d) r4 v4]))
     else if r5 \<noteq> 0 then
       (r5, d\<lparr>fanSpeed := (if r1 \<noteq> 0 then - 1 else v1), memory := v2,
               power_fld := (if r3 \<noteq> 0 then - 1 else v3 div 1000), temperature := v4, utilization := v5\<rparr>,
        w @ [Call_nvmlDeviceGetFanSpeed (handle d) r1 v1, Call_nvmlDeviceGetMemoryInfo (handle d) r2 v2, Call_nvmlDeviceGetPowerUsage (handle d) r3 v3, Call_nvmlDeviceGetTemperature (handle d) r4 v4, Call_nvmlDeviceGetUtilizationRates (handle d) r5 v5] @
        error_events E 96 r5 (w @ [Call_nvmlDeviceGetFanSpeed (handle d) r1 v1, Call_nvmlDeviceGetMemoryInfo (handle d) r2 v2, Call_nvmlDeviceGetPowerUsage (handle d) r3 v3, Call_nvmlDeviceGetTemperature (handle d) r4 v4, Call_nvmlDeviceGetUtilizationRates (handle d) r5 v5]))
     else
       (no_return_value E (w @ [Call_nvmlDeviceGetFanSpeed (handle d) r1 v1, Call_nvmlDeviceGetMemoryInfo (handle d) r2 v2, Call_nvmlDeviceGetPowerUsage (handle d) r3 v3, Call_nvmlDeviceGetTemperature (handle d) r4 v4, Call_nvmlDeviceGetUtilizationRates (handle d) r5 v5]),
        d\<lparr>fanSpeed := (if r1 \<noteq> 0 then - 1 else v1), memory := v2,
               power_fld := (if r3 \<noteq> 0 then - 1 else v3 div 1000), temperature := v4, utilization := v5\<rparr>,
        w @ [Call_nvmlDeviceGetFanSpeed (handle d) r1 v1, Call_nvmlDeviceGetMemoryInfo (handle d) r2 v2, Call_nvmlDeviceGetPowerUsage (handle d) r3 v3, Call_nvmlDeviceGetTemperature (handle d) r4 v4, Call_nvmlDeviceGetUtilizationRates (handle d) r5 v5]))"
  using a1 a2 a3 a4 a5 unfolding GPUDevice_update_def Let_def
  by (cases "r1 = 0"; cases "r2 = 0"; cases "r3 = 0"; cases "r4 = 0"; cases "r5 = 0";
      simp add: NVML_SUCCESS_def checkError_fired)

text \<open>The four ways an update can end.\<close>

lemma GPUDevice_update_cases [case_names memory_failed temperature_failed utilization_failed no_error]:
  obtains
    (memory_failed) r1 v1 r2 v2 p s where
      "r2 \<noteq> 0"
      "GPUDevice_update E d w =
         (r2, d\<lparr>fanSpeed := (if r1 \<noteq> 0 then - 1 else v1), memory := v2\<rparr>,
          w @ [Call_nvmlDeviceGetFanSpeed (handle d) r1 v1, Call_nvmlDeviceGetMemoryInfo (handle d) r2 v2,
               Printf p, Call_nvmlShutdown s])"
  | (temperature_failed) r1 v1 v2 r3 v3 r4 v4 p s where
      "r4 \<noteq> 0"
      "GPUDevice_update E d w =
         (r4, d\<lparr>fanSpeed := (if r1 \<noteq> 0 then - 1 else v1), memory := v2,
                 power_fld := (if r3 \<noteq> 0 then - 1 else v3 div 1000), temperature := v4\<rparr>,
          w @ [Call_nvmlDeviceGetFanSpeed (handle d) r1 v1, Call_nvmlDeviceGetMemoryInfo (handle d) 0 v2,
               Call_nvmlDeviceGetPowerUsage (handle d) r3 v3, Call_nvmlDeviceGetTemperature (handle d) r4 v4,
               Printf p, Call_nvmlShutdown s])"
  | (utilization_failed) r1 v1 v2 r3 v3 v4 r5 v5 p s where
      "r5 \<noteq> 0"
      "GPUDevice_update E d w =
         (r5, d\<lparr>fanSpeed := (if r1 \<noteq> 0 then - 1 else v1), memory := v2,
                 power_fld := (if r3 \<noteq> 0 then - 1 else v3 div 1000), temperature := v4, utilization := v5\<rparr>,
          w @ [Call_nvmlDeviceGetFanSpeed (handle d) r1 v1, Call_nvmlDeviceGetMemoryInfo (handle d) 0 v2,
               Call_nvmlDeviceGetPowerUsage (handle d) r3 v3, Call_nvmlDeviceGetTemperature (handle d) 0 v4,
               Call_nvmlDeviceGetUtilizationRates (handle d) r5 v5, Printf p, Call_nvmlShutdown s])"
  | (no_error) r1 v1 v2 r3 v3 v4 v5 where
      "GPUDevice_update E d w =
         (no_return_value E
            (w @ [Call_nvmlDeviceGetFanSpeed (handle d) r1 v1, Call_nvmlDeviceGetMemoryInfo (handle d) 0 v2,
                  Call_nvmlDeviceGetPowerUsage (handle d) r3 v3, Call_nvmlDeviceGetTemperature (handle d) 0 v4,
                  Call_nvmlDeviceGetUtilizationRates (handle d) 0 v5]),
          d\<lparr>fanSpeed := (if r1 \<noteq> 0 then - 1 else v1), memory := v2,
            power_fld := (if r3 \<noteq> 0 then - 1 else v3 div 1000), temperature := v4, utilization := v5\<rparr>,
          w @ [Call_nvmlDeviceGetFanSpeed (handle d) r1 v1, Call_nvmlDeviceGetMemoryInfo (handle d) 0 v2,
               Call_nvmlDeviceGetPowerUsage (handle d) r3 v3, Call_nvmlDeviceGetTemperature (handle d) 0 v4,
               Call_nvmlDeviceGetUtilizationRates (handle d) 0 v5])"
proof -
  obtain r1 v1 where a1: "nvmlDeviceGetFanSpeed E w (handle d) (fanSpeed d) = (r1, v1)"
    by (cases "nvmlDeviceGetFanSpeed E w (handle d) (fanSpeed d)")
  obtain r2 v2 where a2: "nvmlDeviceGetMemoryInfo E (w @ [Call_nvmlDeviceGetFanSpeed (handle d) r1 v1]) (handle d) (memory d) = (r2, v2)"
    by (cases "nvmlDeviceGetMemoryInfo E (w @ [Call_nvmlDeviceGetFanSpeed (handle d) r1 v1]) (handle d) (memory d)")
  obtain r3 v3 where a3: "nvmlDeviceGetPowerUsage E (w @ [Call_nvmlDeviceGetFanSpeed (handle d) r1 v1, Call_nvmlDeviceGetMemoryInfo (handle d) r2 v2]) (handle d) (power_fld d) = (r3, v3)"
    by (cases "nvmlDeviceGetPowerUsage E (w @ [Call_nvmlDeviceGetFanSpeed (handle d) r1 v1, Call_nvmlDeviceGetMemoryInfo (handle d) r2 v2]) (handle d) (power_fld d)")
  obtain r4 v4 where a4: "nvmlDeviceGetTemperature E (w @ [Call_nvmlDeviceGetFanSpeed (handle d) r1 v1, Call_nvmlDeviceGetMemoryInfo (handle d) r2 v2, Call_nvmlDeviceGetPowerUsage (handle d) r3 v3]) (handle d) (temperature d) = (r4, v4)"
    by (cases "nvmlDeviceGetTemperature E (w @ [Call_nvmlDeviceGetFanSpeed (handle d) r1 v1, Call_nvmlDeviceGetMemoryInfo (handle d) r2 v2, Call_nvmlDeviceGetPowerUsage (handle d) r3 v3]) (handle d) (temperature d)")
  obtain r5 v5 where a5: "nvmlDeviceGetUtilizationRates E (w @ [Call_nvmlDeviceGetFanSpeed (handle d) r1 v1, Call_nvmlDeviceGetMemoryInfo (handle d) r2 v2, Call_nvmlDeviceGetPowerUsage (handle d) r3 v3, Call_nvmlDeviceGetTemperature (handle d) r4 v4]) (handle d) (utilization d) = (r5, v5)"
    by (cases "nvmlDeviceGetUtilizationRates E (w @ [Call_nvmlDeviceGetFanSpeed (handle d) r1 v1, Call_nvmlDeviceGetMemoryInfo (handle d) r2 v2, Call_nvmlDeviceGetPowerUsage (handle d) r3 v3, Call_nvmlDeviceGetTemperature (handle d) r4 v4]) (handle d) (utilization d)")
  note U = GPUDevice_update_unfold [OF a1 a2 a3 a4 a5]
  show thesis
  proof (cases "r2 = 0")
    case False
    with U show thesis by (intro memory_failed [of r2]) (simp_all add: error_events_def)
  next
    case r2: True
    show thesis
    proof (cases "r4 = 0")
      case False
      with U r2 show thesis by (intro temperature_failed [of r4]) (simp_all add: error_events_def)
    next
      case r4: True
      show thesis
      proof (cases "r5 = 0")
        case False
        with U r2 r4 show thesis by (intro utilization_failed [of r5]) (simp_all add: error_events_def)
      next
        case True
        with U r2 r4 show thesis by (intro no_error) simp
      qed
    qed
  qed
qed

lemma excess_Nil [simp]: "excess [] = 0"
  by (simp add: excess_def)

lemma excess_append [simp]: "excess (xs @ ys) = excess xs + excess ys"
  by (simp add: excess_def)

lemma excess_Cons [simp]:
  "excess (e # xs) = (if is_shutdown e then 1 else 0) - (if fatal_failure e then 1 else 0) + excess xs"
  by (simp add: excess_def)

lemma GPUDevice_update_frame_aux:
  "fst (snd (GPUDevice_update E d w)) =
     d\<lparr>fanSpeed := fanSpeed (fst (snd (GPUDevice_update E d w))),
       memory := memory (fst (snd (GPUDevice_update E d w))),
       power_fld := power_fld (fst (snd (GPUDevice_update E d w))),
       temperature := temperature (fst (snd (GPUDevice_update E d w))),
       utilization := utilization (fst (snd (GPUDevice_update E d w)))\<rparr>"
  by (rule GPUDevice_update_cases [where E = E and d = d and w = w]) simp_all

lemma GPUDevice_update_identity:
  "index (fst (snd (GPUDevice_update E d w))) = index d"
  "name (fst (snd (GPUDevice_update E d w))) = name d"
  "handle (fst (snd (GPUDevice_update E d w))) = handle d"
  "dmCurrent (fst (snd (GPUDevice_update E d w))) = dmCurrent d"
  "dmPending (fst (snd (GPUDevice_update E d w))) = dmPending d"
  by (rule GPUDevice_update_cases [where E = E and d = d and w = w]; simp)+

lemma GPUDevice_update_excess: "excess (snd (snd (GPUDevice_update E d w))) = excess w"
  by (rule GPUDevice_update_cases [where E = E and d = d and w = w])
     (simp_all add: NVML_SUCCESS_def)

lemma pad_name_eq: "pad_name n = n @ replicate (GPU_NAME_TEXT_FIELD_SIZE - length n) (CHR '' '')"
proof (induction n rule: pad_name.induct)
  case (1 n)
  show ?case
  proof (cases "length n < GPU_NAME_TEXT_FIELD_SIZE")
    case True
    then have "pad_name n = pad_name (n @ '' '')"
      by (subst pad_name.simps) simp
    also have "\<dots> = (n @ '' '') @ replicate (GPU_NAME_TEXT_FIELD_SIZE - length (n @ '' '')) (CHR '' '')"
      using True by (intro "1.IH") simp_all
    also have "\<dots> = n @ replicate (GPU_NAME_TEXT_FIELD_SIZE - length n) (CHR '' '')"
      using True by (simp add: replicate_app_Cons_same Suc_diff_Suc flip: replicate_Suc)
    finally show ?thesis .
  next
    case False
    then show ?thesis
      by (subst pad_name.simps) simp
  qed
qed

lemma append_while_pad_name:
  "length n < GPU_NAME_TEXT_FIELD_SIZE \<Longrightarrow> append_while n = Some (pad_name n)"
proof (induction "GPU_NAME_TEXT_FIELD_SIZE - length n" arbitrary: n)
  case 0
  then show ?case by simp
next
  case (Suc k)
  show ?case
  proof (cases "length (n @ '' '') < GPU_NAME_TEXT_FIELD_SIZE")
    case True
    with Suc have "append_while (n @ '' '') = Some (pad_name (n @ '' ''))"
      by (intro Suc.hyps(1)) simp
    with Suc.prems show ?thesis
      by (subst append_while.simps, subst pad_name.simps) simp
  next
    case False
    with Suc.prems have l: "length (n @ '' '') = GPU_NAME_TEXT_FIELD_SIZE"
      by simp
    then have "append_while (n @ '' '') = Some (n @ '' '')"
      by (subst append_while.simps) simp
    moreover from l have "pad_name (n @ '' '') = n @ '' ''"
      by (subst pad_name.simps) simp
    ultimately show ?thesis
      using Suc.prems by (subst append_while.simps, subst pad_name.simps) simp
  qed
qed

lemma GPUDevice_init_cases [case_names handle_failed name_failed queried]:
  obtains
    (handle_failed) r h p s where
      "r \<noteq> 0"
      "GPUDevice_init E d w =
         (r, d\<lparr>handle := h\<rparr>,
          w @ [Call_nvmlDeviceGetHandleByIndex (index d) r h, Printf p, Call_nvmlShutdown s])"
  | (name_failed) h r n p s where
      "r \<noteq> 0"
      "GPUDevice_init E d w =
         (r, d\<lparr>handle := h\<rparr>,
          w @ [Call_nvmlDeviceGetHandleByIndex (index d) 0 h, Call_nvmlDeviceGetName h r n,
               Printf p, Call_nvmlShutdown s])"
  | (queried) h n r cur pend msgs where
      "set msgs \<subseteq> range Printf"
      "GPUDevice_init E d w =
         GPUDevice_update E (d\<lparr>handle := h, name := pad_name n, dmCurrent := cur, dmPending := pend\<rparr>)
           (w @ [Call_nvmlDeviceGetHandleByIndex (index d) 0 h, Call_nvmlDeviceGetName h 0 n,
                 Call_nvmlDeviceGetDriverModel h r cur pend] @ msgs)"
proof -
  obtain r1 h where a1: "nvmlDeviceGetHandleByIndex E w (index d) (handle d) = (r1, h)"
    by (cases "nvmlDeviceGetHandleByIndex E w (index d) (handle d)")
  obtain r2 n where a2: "nvmlDeviceGetName E (w @ [Call_nvmlDeviceGetHandleByIndex (index d) r1 h]) h = (r2, n)"
    by (cases "nvmlDeviceGetName E (w @ [Call_nvmlDeviceGetHandleByIndex (index d) r1 h]) h")
  obtain r3 cur pend where a3: "nvmlDeviceGetDriverModel E
      (w @ [Call_nvmlDeviceGetHandleByIndex (index d) r1 h, Call_nvmlDeviceGetName h r2 n]) h
      (dmCurrent d) (dmPending d) = (r3, cur, pend)"
    by (cases "nvmlDeviceGetDriverModel E
      (w @ [Call_nvmlDeviceGetHandleByIndex (index d) r1 h, Call_nvmlDeviceGetName h r2 n]) h
      (dmCurrent d) (dmPending d)")
  show thesis
  proof (cases "r1 = 0")
    case False
    with a1 have "GPUDevice_init E d w =
         (r1, d\<lparr>handle := h\<rparr>,
          w @ [Call_nvmlDeviceGetHandleByIndex (index d) r1 h,
               Printf (''ERROR: An error has occurred on line '' @ show_int 47 @
                       ''. Error code: '' @ show_int r1 @ ''. Terminating!\<newline>''),
               Call_nvmlShutdown (nvmlShutdown E (w @ [Call_nvmlDeviceGetHandleByIndex (index d) r1 h,
                 Printf (''ERROR: An error has occurred on line '' @ show_int 47 @
                       ''. Error code: '' @ show_int r1 @ ''. Terminating!\<newline>'')]))])"
      by (simp add: GPUDevice_init_def Let_def checkError_fired error_events_def)
    with False show thesis by (rule handle_failed)
  next
    case r1: True
    show thesis
    proof (cases "r2 = 0")
      case False
      with a1 a2 r1 have "GPUDevice_init E d w =
         (r2, d\<lparr>handle := h\<rparr>,
          w @ [Call_nvmlDeviceGetHandleByIndex (index d) 0 h, Call_nvmlDeviceGetName h r2 n,
               Printf (''ERROR: An error has occurred on line '' @ show_int 50 @
                       ''. Error code: '' @ show_int r2 @ ''. Terminating!\<newline>''),
               Call_nvmlShutdown (nvmlShutdown E (w @ [Call_nvmlDeviceGetHandleByIndex (index d) 0 h,
                 Call_nvmlDeviceGetName h r2 n,
                 Printf (''ERROR: An error has occurred on line '' @ show_int 50 @
                       ''. Error code: '' @ show_int r2 @ ''. Terminating!\<newline>'')]))])"
        by (simp add: GPUDevice_init_def Let_def checkError_fired error_events_def)
      with False show thesis by (rule name_failed)
    next
      case True
      define msgs where
        "msgs = (if r3 \<noteq> 0 then [Printf ''init[65] ERROR: Could not obtain Driver Model\<newline>''] else [])"
      have m: "set msgs \<subseteq> range Printf"
        by (auto simp: msgs_def)
      from a1 a2 a3 r1 True have "GPUDevice_init E d w =
         GPUDevice_update E (d\<lparr>handle := h, name := pad_name n, dmCurrent := cur, dmPending := pend\<rparr>)
           (w @ [Call_nvmlDeviceGetHandleByIndex (index d) 0 h, Call_nvmlDeviceGetName h 0 n,
                 Call_nvmlDeviceGetDriverModel h r3 cur pend] @ msgs)"
        by (simp add: GPUDevice_init_def Let_def NVML_SUCCESS_def msgs_def)
      with m show thesis by (rule queried)
    qed
  qed
qed

lemma GPUDevice_update_no_error:
  assumes "\<not> list_ex fatal_failure (drop (length w) (snd (snd (GPUDevice_update E d w))))"
  shows "fst (GPUDevice_update E d w) = no_return_value E (snd (snd (GPUDevice_update E d w)))"
  using assms
  by (rule_tac GPUDevice_update_cases [where E = E and d = d and w = w])
     (auto simp: NVML_SUCCESS_def)

lemma GPUDevice_update_fan_failed:
  assumes "Call_nvmlDeviceGetFanSpeed h r v
             \<in> set (drop (length w) (snd (snd (GPUDevice_update E d w))))" "r \<noteq> NVML_SUCCESS"
  shows "fanSpeed (fst (snd (GPUDevice_update E d w))) = - 1" 
  using assms
  by (rule_tac GPUDevice_update_cases [where E = E and d = d and w = w])
     (auto simp: NVML_SUCCESS_def)

section \<open>Lemmas about the refresh cycle\<close>

lemma update_loop_length: "length (fst (update_loop E ds v w)) = length ds"
  by (induction ds arbitrary: w) (simp_all add: Let_def case_prod_beta)

lemma update_loop_excess: "excess (snd (snd (update_loop E ds v w))) = excess w"
proof (induction ds arbitrary: w)
  case Nil
  show ?case by simp
next
  case (Cons d ds)
  obtain r d' w' where u: "GPUDevice_update E d w = (r, d', w')"
    by (cases "GPUDevice_update E d w")
  with GPUDevice_update_excess [of E d w] have "excess w' = excess w"
    by simp
  with u Cons [of w'] show ?case
    by (simp add: Let_def case_prod_beta)
qed

lemma update_loop_map:
  assumes "\<And>E d w. f (fst (snd (GPUDevice_update E d w))) = f d"
  shows "map f (fst (update_loop E ds v w)) = map f ds"
proof (induction ds arbitrary: w)
  case Nil
  show ?case by simp
next
  case (Cons d ds)
  obtain r d' w' where u: "GPUDevice_update E d w = (r, d', w')"
    by (cases "GPUDevice_update E d w")
  with assms [of E d w] have "f d' = f d"
    by simp
  with u Cons [of w'] show ?case
    by (simp add: Let_def case_prod_beta)
qed

lemma update_loop_append:
  assumes "update_loop E xs True w = (xs', True, w')"
  shows "update_loop E (xs @ ys) v w =
           (xs' @ fst (update_loop E ys v w'), fst (snd (update_loop E ys v w')),
            snd (snd (update_loop E ys v w')))"
  using assms
proof (induction xs arbitrary: w xs')
  case Nil
  then show ?case by simp
next
  case (Cons d ds)
  obtain r d' w1 where u: "GPUDevice_update E d w = (r, d', w1)"
    by (cases "GPUDevice_update E d w")
  obtain ds' v1 w2 where l: "update_loop E ds True w1 = (ds', v1, w2)"
    by (cases "update_loop E ds True w1")
  from Cons.prems u l have r: "r = 0" and v1: "v1 = True" and xs': "xs' = d' # ds'" and w2: "w2 = w'"
    by (auto simp: Let_def split: if_splits)
  from Cons.IH [of w1 ds'] l v1 w2
  have "update_loop E (ds @ ys) v w1 =
           (ds' @ fst (update_loop E ys v w'), fst (snd (update_loop E ys v w')),
            snd (snd (update_loop E ys v w')))"
    by simp
  with u r xs' show ?case
    by (simp add: Let_def)
qed

lemma GPUDevice_update_temperature_failed:
  assumes "Call_nvmlDeviceGetTemperature h r t
             \<in> set (drop (length w) (snd (snd (GPUDevice_update E d w))))" "r \<noteq> NVML_SUCCESS"
  shows "fst (GPUDevice_update E d w) = r"
  using assms
  by (rule_tac GPUDevice_update_cases [where E = E and d = d and w = w])
     (auto simp: NVML_SUCCESS_def)

section \<open>Lemmas about enumeration and construction\<close>

lemma sys_query_failed_not_device: "list_all device_event evs \<Longrightarrow> \<not> list_ex sys_query_failed evs"
proof (induction evs)
  case Nil
  show ?case by simp
next
  case (Cons e evs)
  then show ?case by (cases e) simp_all
qed

lemma GPUDevice_update_events:
  "\<exists>evs. snd (snd (GPUDevice_update E d w)) = w @ evs \<and> list_all device_event evs"
  by (rule GPUDevice_update_cases [where E = E and d = d and w = w]) simp_all

lemma GPUDevice_init_events:
  "\<exists>evs. snd (snd (GPUDevice_init E d w)) = w @ evs \<and> list_all device_event evs"
proof (rule GPUDevice_init_cases [where E = E and d = d and w = w])
  fix h n r cur pend msgs
  assume m: "set msgs \<subseteq> range Printf"
    and eq: "GPUDevice_init E d w =
         GPUDevice_update E (d\<lparr>handle := h, name := pad_name n, dmCurrent := cur, dmPending := pend\<rparr>)
           (w @ [Call_nvmlDeviceGetHandleByIndex (index d) 0 h, Call_nvmlDeviceGetName h 0 n,
                 Call_nvmlDeviceGetDriverModel h r cur pend] @ msgs)"
  from m have msgs: "list_all device_event msgs"
    by (auto simp: list_all_iff)
  obtain evs where "snd (snd (GPUDevice_init E d w)) =
      (w @ [Call_nvmlDeviceGetHandleByIndex (index d) 0 h, Call_nvmlDeviceGetName h 0 n,
                 Call_nvmlDeviceGetDriverModel h r cur pend] @ msgs) @ evs" "list_all device_event evs"
    unfolding eq using GPUDevice_update_events by blast
  with msgs show ?thesis
    by (intro exI [of _ "[Call_nvmlDeviceGetHandleByIndex (index d) 0 h, Call_nvmlDeviceGetName h 0 n,
                 Call_nvmlDeviceGetDriverModel h r cur pend] @ msgs @ evs"]) simp
qed simp_all

lemma GPUDevice_init_excess: "excess (snd (snd (GPUDevice_init E d w))) = excess w"
proof (rule GPUDevice_init_cases [where E = E and d = d and w = w])
  fix h n r cur pend msgs
  assume m: "set msgs \<subseteq> range Printf"
    and eq: "GPUDevice_init E d w =
         GPUDevice_update E (d\<lparr>handle := h, name := pad_name n, dmCurrent := cur, dmPending := pend\<rparr>)
           (w @ [Call_nvmlDeviceGetHandleByIndex (index d) 0 h, Call_nvmlDeviceGetName h 0 n,
                 Call_nvmlDeviceGetDriverModel h r cur pend] @ msgs)"
  from m have "excess msgs = 0"
    by (induction msgs) auto
  then show ?thesis
    by (simp add: eq GPUDevice_update_excess NVML_SUCCESS_def)
qed (simp_all add: NVML_SUCCESS_def)

lemma GPUDevice_init_index: "index (fst (snd (GPUDevice_init E d w))) = index d"
proof (rule GPUDevice_init_cases [where E = E and d = d and w = w])
  fix h n r cur pend msgs
  assume eq: "GPUDevice_init E d w =
         GPUDevice_update E (d\<lparr>handle := h, name := pad_name n, dmCurrent := cur, dmPending := pend\<rparr>)
           (w @ [Call_nvmlDeviceGetHandleByIndex (index d) 0 h, Call_nvmlDeviceGetName h 0 n,
                 Call_nvmlDeviceGetDriverModel h r cur pend] @ msgs)"
  show ?thesis
    by (simp add: eq GPUDevice_update_identity)
qed simp_all

text \<open>An invariant of the enumeration loop holds when the loop ends.\<close>

lemma init_loop_rule:
  assumes "Q i ds w" and "i \<le> n"
    and step: "\<And>i ds w. i < n \<Longrightarrow> Q i ds w \<Longrightarrow>
      Q (Suc i) (ds[i := fst (snd (GPUDevice_init E ((ds ! i)\<lparr>index := int i\<rparr>) w))])
        (snd (snd (GPUDevice_init E ((ds ! i)\<lparr>index := int i\<rparr>) w)))"
  shows "Q n (fst (init_loop E i n ds w)) (snd (init_loop E i n ds w))"
  using assms(1,2)
proof (induction "n - i" arbitrary: i ds w)
  case 0
  then have "i = n" by simp
  with 0 show ?case
    by (subst (1 2) init_loop.simps) simp
next
  case (Suc k)
  then have lt: "i < n" by simp
  have "Q n (fst (init_loop E (Suc i) n (ds[i := fst (snd (GPUDevice_init E ((ds ! i)\<lparr>index := int i\<rparr>) w))])
                (snd (snd (GPUDevice_init E ((ds ! i)\<lparr>index := int i\<rparr>) w)))))
            (snd (init_loop E (Suc i) n (ds[i := fst (snd (GPUDevice_init E ((ds ! i)\<lparr>index := int i\<rparr>) w))])
                (snd (snd (GPUDevice_init E ((ds ! i)\<lparr>index := int i\<rparr>) w)))))"
    using Suc.hyps(2) lt Suc.prems
    by (intro Suc.hyps(1) step) simp_all
  with lt show ?case
    by (subst (1 2) init_loop.simps) (simp add: Let_def case_prod_beta)
qed

lemma init_loop_excess: "excess (snd (init_loop E 0 n ds w)) = excess w"
  by (rule init_loop_rule [where Q = "\<lambda>i ds w'. excess w' = excess w"])
     (simp_all add: GPUDevice_init_excess)

lemma init_loop_events:
  "\<exists>evs. snd (init_loop E 0 n ds w) = w @ evs \<and> list_all device_event evs"
proof (rule init_loop_rule [where Q = "\<lambda>i ds w'. \<exists>evs. w' = w @ evs \<and> list_all device_event evs"])
  fix i and ds :: "GPUDevice list" and w'
  assume "\<exists>evs. w' = w @ evs \<and> list_all device_event evs"
  then obtain evs where 1: "w' = w @ evs" "list_all device_event evs"
    by blast
  obtain evs' where 2: "snd (snd (GPUDevice_init E ((ds ! i)\<lparr>index := int i\<rparr>) w')) = w' @ evs'"
      "list_all device_event evs'"
    using GPUDevice_init_events by blast
  from 1 2 show "\<exists>evs. snd (snd (GPUDevice_init E ((ds ! i)\<lparr>index := int i\<rparr>) w')) = w @ evs
      \<and> list_all device_event evs"
    by (intro exI [of _ "evs @ evs'"]) simp
qed simp_all

lemma init_loop_index:
  assumes "length ds = n"
  shows "length (fst (init_loop E 0 n ds w)) = n
       \<and> map index (fst (init_loop E 0 n ds w)) = map int [0..<n]"
proof -
  have "length (fst (init_loop E 0 n ds w)) = n
      \<and> (\<forall>j<n. index (fst (init_loop E 0 n ds w) ! j) = int j)"
  proof (rule init_loop_rule [where Q = "\<lambda>i ds w. length ds = n \<and> (\<forall>j<i. index (ds ! j) = int j)"])
    fix i and ds :: "GPUDevice list" and w
    assume "i < n" "length ds = n \<and> (\<forall>j<i. index (ds ! j) = int j)"
    then show "length (ds[i := fst (snd (GPUDevice_init E ((ds ! i)\<lparr>index := int i\<rparr>) w))]) = n \<and>
       (\<forall>j<Suc i. index (ds[i := fst (snd (GPUDevice_init E ((ds ! i)\<lparr>index := int i\<rparr>) w))] ! j) = int j)"
      by (auto simp: nth_list_update GPUDevice_init_index less_Suc_eq)
  qed (simp_all add: assms)
  then show ?thesis
    by (auto intro: nth_equalityI)
qed

lemma length_resize: "length (resize n ds) = n"
  by (simp add: resize_def)

lemma DeviceManager_init_cases [case_names init_failed version_failed count_failed enumerated]:
  obtains
    (init_failed) msgs where
      "nvmlInit E w \<noteq> 0" "set msgs \<subseteq> range Printf"
      "DeviceManager_init E m w = (0, m, w @ [Call_nvmlInit (nvmlInit E w)] @ msgs)"
  | (version_failed) r v p s where
      "nvmlInit E w = 0" "r \<noteq> 0"
      "DeviceManager_init E m w =
         (r, m, w @ [Call_nvmlInit 0, Call_nvmlSystemGetDriverVersion r v, Printf p, Call_nvmlShutdown s])"
  | (count_failed) v r n p s where
      "nvmlInit E w = 0" "r \<noteq> 0"
      "DeviceManager_init E m w =
         (r, m\<lparr>driverVersion := v, numDevices := n\<rparr>,
          w @ [Call_nvmlInit 0, Call_nvmlSystemGetDriverVersion 0 v, Call_nvmlDeviceGetCount r n,
               Printf p, Call_nvmlShutdown s])"
  | (enumerated) v n where
      "nvmlInit E w = 0"
      "DeviceManager_init E m w =
         (0, m\<lparr>driverVersion := v, numDevices := n,
               devices := fst (init_loop E 0 (unat n) (resize (unat n) (devices m))
                 (w @ [Call_nvmlInit 0, Call_nvmlSystemGetDriverVersion 0 v, Call_nvmlDeviceGetCount 0 n]))\<rparr>,
          snd (init_loop E 0 (unat n) (resize (unat n) (devices m))
                 (w @ [Call_nvmlInit 0, Call_nvmlSystemGetDriverVersion 0 v, Call_nvmlDeviceGetCount 0 n])))"
proof (cases "nvmlInit E w = 0")
  case False
  define msgs where "msgs =
    (if nvmlInit E w = NVML_ERROR_DRIVER_NOT_LOADED then
       [Printf ''ERROR: NVidia driver is not running. Initialization failed.\<newline>'']
     else if nvmlInit E w = NVML_ERROR_NO_PERMISSION then
       [Printf ''ERROR: NVML does not have permission to talk to the driver. Initialization failed.\<newline>'']
     else if nvmlInit E w = NVML_ERROR_UNKNOWN then
       [Printf ''ERROR: NVML encounted an unexpected error during initialization. Initialization failed.\<newline>'']
     else [])"
  have m: "set msgs \<subseteq> range Printf"
    by (auto simp: msgs_def)
  from False have "DeviceManager_init E m w = (0, m, w @ [Call_nvmlInit (nvmlInit E w)] @ msgs)"
    by (simp add: DeviceManager_init_def Let_def msgs_def NVML_SUCCESS_def)
  with False m show thesis by (rule init_failed)
next
  case i: True
  obtain r1 v where a1: "nvmlSystemGetDriverVersion E (w @ [Call_nvmlInit 0]) = (r1, v)"
    by (cases "nvmlSystemGetDriverVersion E (w @ [Call_nvmlInit 0])")
  obtain r2 n where a2: "nvmlDeviceGetCount E
      (w @ [Call_nvmlInit 0, Call_nvmlSystemGetDriverVersion r1 v]) (numDevices m) = (r2, n)"
    by (cases "nvmlDeviceGetCount E
      (w @ [Call_nvmlInit 0, Call_nvmlSystemGetDriverVersion r1 v]) (numDevices m)")
  show thesis
  proof (cases "r1 = 0")
    case False
    with i a1 have "DeviceManager_init E m w =
         (r1, m, w @ [Call_nvmlInit 0, Call_nvmlSystemGetDriverVersion r1 v,
            Printf (''ERROR: An error has occurred on line '' @ show_int 126 @
                       ''. Error code: '' @ show_int r1 @ ''. Terminating!\<newline>''),
            Call_nvmlShutdown (nvmlShutdown E (w @ [Call_nvmlInit 0, Call_nvmlSystemGetDriverVersion r1 v,
              Printf (''ERROR: An error has occurred on line '' @ show_int 126 @
                       ''. Error code: '' @ show_int r1 @ ''. Terminating!\<newline>'')]))])"
      by (simp add: DeviceManager_init_def Let_def checkError_fired error_events_def
            NVML_SUCCESS_def NVML_ERROR_DRIVER_NOT_LOADED_def NVML_ERROR_NO_PERMISSION_def
            NVML_ERROR_UNKNOWN_def)
    with i False show thesis by (rule version_failed)
  next
    case r1: True
    show thesis
    proof (cases "r2 = 0")
      case False
      with i a1 a2 r1 have "DeviceManager_init E m w =
         (r2, m\<lparr>driverVersion := v, numDevices := n\<rparr>,
          w @ [Call_nvmlInit 0, Call_nvmlSystemGetDriverVersion 0 v, Call_nvmlDeviceGetCount r2 n,
            Printf (''ERROR: An error has occurred on line '' @ show_int 130 @
                       ''. Error code: '' @ show_int r2 @ ''. Terminating!\<newline>''),
            Call_nvmlShutdown (nvmlShutdown E (w @ [Call_nvmlInit 0, Call_nvmlSystemGetDriverVersion 0 v,
              Call_nvmlDeviceGetCount r2 n,
              Printf (''ERROR: An error has occurred on line '' @ show_int 130 @
                       ''. Error code: '' @ show_int r2 @ ''. Terminating!\<newline>'')]))])"
        by (simp add: DeviceManager_init_def Let_def checkError_fired error_events_def
              NVML_SUCCESS_def NVML_ERROR_DRIVER_NOT_LOADED_def NVML_ERROR_NO_PERMISSION_def
              NVML_ERROR_UNKNOWN_def)
      with i False show thesis by (rule count_failed)
    next
      case True
      with i a1 a2 r1 have "DeviceManager_init E m w =
         (0, m\<lparr>driverVersion := v, numDevices := n,
               devices := fst (init_loop E 0 (unat n) (resize (unat n) (devices m))
                 (w @ [Call_nvmlInit 0, Call_nvmlSystemGetDriverVersion 0 v, Call_nvmlDeviceGetCount 0 n]))\<rparr>,
          snd (init_loop E 0 (unat n) (resize (unat n) (devices m))
                 (w @ [Call_nvmlInit 0, Call_nvmlSystemGetDriverVersion 0 v, Call_nvmlDeviceGetCount 0 n])))"
        by (simp add: DeviceManager_init_def Let_def case_prod_beta
              NVML_SUCCESS_def NVML_ERROR_DRIVER_NOT_LOADED_def NVML_ERROR_NO_PERMISSION_def
              NVML_ERROR_UNKNOWN_def)
      with i show thesis by (rule enumerated)
    qed
  qed
qed

lemma Printf_excess: "set msgs \<subseteq> range Printf \<Longrightarrow> excess msgs = 0"
  by (induction msgs) auto

lemma DeviceManager_init_excess: "excess (snd (snd (DeviceManager_init E m w))) = excess w"
  by (rule DeviceManager_init_cases [where E = E and m = m and w = w])
     (simp_all add: Printf_excess init_loop_excess NVML_SUCCESS_def)

lemma DeviceManager_ctor_excess: "excess (snd (DeviceManager_ctor E w)) = excess w"
  using DeviceManager_init_excess
    [of E "\<lparr>driverVersion = ''Unknown'', numDevices = 0, devices = [], valid = False\<rparr>" w]
  by (simp add: DeviceManager_ctor_def Let_def case_prod_beta)

lemma DeviceManager_ctor_index:
  "map index (devices (fst (DeviceManager_ctor E w))) =
     map int [0..<length (devices (fst (DeviceManager_ctor E w)))]
   \<and> (devices (fst (DeviceManager_ctor E w)) = []
      \<or> length (devices (fst (DeviceManager_ctor E w))) = unat (numDevices (fst (DeviceManager_ctor E w))))"
  by (rule DeviceManager_init_cases [where E = E and w = w
        and m = "\<lparr>driverVersion = ''Unknown'', numDevices = 0, devices = [], valid = False\<rparr>"])
     (simp_all add: DeviceManager_ctor_def Let_def init_loop_index length_resize)

lemma DeviceManager_update_index:
  "map index (devices (fst (snd (DeviceManager_update E m w)))) = map index (devices m)"
  by (simp add: DeviceManager_update_def Let_def case_prod_beta update_loop_map GPUDevice_update_identity)

lemma main_body_index: "map index (devices (fst (main_body E m w))) = map index (devices m)"
  by (simp add: main_body_def Let_def case_prod_beta DeviceManager_update_index)

lemma rounds_index: "map index (devices (fst (rounds E n s))) = map index (devices (fst s))"
  by (induction n arbitrary: s) (simp_all add: main_body_index)

section \<open>Lemmas about the process\<close>

text \<open>
  The loop of main returns exactly when some number of rounds leaves the manager invalid,
  and then returns the state after the first such number of rounds.
\<close>

lemma main_loop_rounds:
  "\<not> isValid (fst (rounds E n (m, w))) \<Longrightarrow> \<exists>k\<le>n. main_loop E m w = Some (rounds E k (m, w))"
proof (induction n arbitrary: m w)
  case 0
  then show ?case
    by (subst main_loop.simps) simp
next
  case (Suc n)
  show ?case
  proof (cases "isValid m")
    case False
    then have "main_loop E m w = Some (rounds E 0 (m, w))"
      by (subst main_loop.simps) simp
    then show ?thesis by blast
  next
    case True
    obtain m' w' where b: "main_body E m w = (m', w')"
      by (cases "main_body E m w")
    with Suc.prems have "\<not> isValid (fst (rounds E n (m', w')))"
      by simp
    then obtain k where k: "k \<le> n" "main_loop E m' w' = Some (rounds E k (m', w'))"
      using Suc.IH by blast
    from True b k(2) have "main_loop E m w = Some (rounds E (Suc k) (m, w))"
      by (subst main_loop.simps) simp
    with k(1) show ?thesis
      by (intro exI [of _ "Suc k"]) simp
  qed
qed

lemma main_loop_SomeD:
  assumes "main_loop E m w = Some s"
  shows "\<exists>n. s = rounds E n (m, w) \<and> \<not> isValid (fst s)"
proof (rule main_loop.raw_induct
    [where P = "\<lambda>E m w s. \<exists>n. s = rounds E n (m, w) \<and> \<not> isValid (fst s)", OF _ assms])
  fix loop E' m' w' s'
  assume IH: "\<And>E m w s. loop E m w = Some s \<Longrightarrow> \<exists>n. s = rounds E n (m, w) \<and> \<not> isValid (fst s)"
    and eq: "(if isValid m' then let (devMan, w) = main_body E' m' w' in loop E' devMan w
              else Some (m', w')) = Some s'"
  show "\<exists>n. s' = rounds E' n (m', w') \<and> \<not> isValid (fst s')"
  proof (cases "isValid m'")
    case False
    with eq have "s' = (m', w')"
      by simp
    with False show ?thesis
      by (intro exI [of _ 0]) simp
  next
    case True
    with eq have "loop E' (fst (main_body E' m' w')) (snd (main_body E' m' w')) = Some s'"
      by (simp add: case_prod_beta)
    from IH [OF this] obtain n where
      "s' = rounds E' n (fst (main_body E' m' w'), snd (main_body E' m' w'))" "\<not> isValid (fst s')"
      by blast
    then have "s' = rounds E' (Suc n) (m', w') \<and> \<not> isValid (fst s')"
      by simp
    then show ?thesis by blast
  qed
qed

lemma main_SomeD:
  assumes "main E = Some (rc, tr)"
  shows "rc = 0 \<and> (\<exists>n. tr = DeviceManager_dtor E (snd (rounds E n (DeviceManager_ctor E [])))
                     \<and> \<not> valid (fst (rounds E n (DeviceManager_ctor E []))))"
proof -
  obtain m w where c: "DeviceManager_ctor E [] = (m, w)"
    by (cases "DeviceManager_ctor E []")
  with assms obtain m' w' where l: "main_loop E m w = Some (m', w')"
    and r: "rc = 0" "tr = DeviceManager_dtor E w'"
    by (auto simp: main_def split: option.splits)
  from main_loop_SomeD [OF l] c r show ?thesis
    by (auto simp: isValid_def) (metis snd_conv fst_conv)
qed

lemma main_exits:
  assumes "\<not> valid (fst (rounds E n (DeviceManager_ctor E [])))"
  shows "\<exists>k\<le>n. main E = Some (0, DeviceManager_dtor E (snd (rounds E k (DeviceManager_ctor E []))))"
proof -
  obtain m w where c: "DeviceManager_ctor E [] = (m, w)"
    by (cases "DeviceManager_ctor E []")
  with assms have "\<not> isValid (fst (rounds E n (m, w)))"
    by (simp add: isValid_def)
  from main_loop_rounds [OF this] obtain k where "k \<le> n" "main_loop E m w = Some (rounds E k (m, w))"
    by blast
  with c show ?thesis
    by (intro exI [of _ k]) (simp add: main_def case_prod_beta split: prod.splits)
qed

text \<open>
  On the healthy machine (where an update that runs to its end is read as 0 by its caller
  and nothing else happens there) no update ever fails, the manager stays valid and main
  never returns: such a run ends only from outside, and the destructor is not reached.
\<close>

lemma healthy_update: "fst (GPUDevice_update healthy d w) = 0"
  by (simp add: GPUDevice_update_def healthy_def Let_def NVML_SUCCESS_def)

lemma healthy_update_loop: "fst (snd (update_loop healthy ds v w)) = v"
proof (induction ds arbitrary: w)
  case Nil
  show ?case by simp
next
  case (Cons d ds)
  with healthy_update [of d w] show ?case
    by (simp add: Let_def case_prod_beta)
qed

lemma healthy_rounds: "valid (fst (rounds healthy n s)) = valid (fst s)"
  by (induction n arbitrary: s)
     (simp_all add: main_body_def DeviceManager_update_def Let_def case_prod_beta healthy_update_loop)

lemma healthy_never_returns: "main healthy = None"
proof (cases "main healthy")
  case None
  then show ?thesis .
next
  case (Some r)
  obtain rc tr where "main healthy = Some (rc, tr)"
    using Some by (cases r) simp
  from main_SomeD [OF this] obtain n where
    "\<not> valid (fst (rounds healthy n (DeviceManager_ctor healthy [])))"
    by blast
  moreover have "valid (fst (DeviceManager_ctor healthy []))"
    by (simp add: eval_defs healthy_def)
  ultimately show ?thesis
    by (simp add: healthy_rounds)
qed

section \<open>Lemmas about printing\<close>

lemma GPUDevice_print_append: "GPUDevice_print d w = w @ GPUDevice_print d []"
  by (simp add: GPUDevice_print_def Let_def)

lemma GPUDevice_print_Printf: "set (GPUDevice_print d []) \<subseteq> range Printf"
  by (simp add: GPUDevice_print_def Let_def)

lemma foldl_GPUDevice_print:
  "foldl (\<lambda>w d. GPUDevice_print d w) w ds = w @ concat (map (\<lambda>d. GPUDevice_print d []) ds)"
proof (induction ds arbitrary: w)
  case Nil
  show ?case by simp
next
  case (Cons d ds)
  have "foldl (\<lambda>w d. GPUDevice_print d w) w (d # ds) =
          GPUDevice_print d w @ concat (map (\<lambda>d. GPUDevice_print d []) ds)"
    by (simp add: Cons)
  also have "GPUDevice_print d w = w @ GPUDevice_print d []"
    by (rule GPUDevice_print_append)
  finally show ?case by simp
qed

lemma DeviceManager_print_eq:
  "DeviceManager_print E m w =
     w @ [Ctime (ctime_now E w), Printf (ctime_now E w)] @ table_events m"
  by (simp add: DeviceManager_print_def table_events_def Let_def foldl_GPUDevice_print)

lemma table_events_Printf: "set (table_events m) \<subseteq> range Printf"
  using GPUDevice_print_Printf
  by (auto simp: table_events_def DeviceManager_print_def Let_def foldl_GPUDevice_print)

lemma Printf_not_library_call: "set evs \<subseteq> range Printf \<Longrightarrow> filter library_call evs = []"
  by (induction evs) auto

lemma stdout_text_append [simp]: "stdout_text (xs @ ys) = stdout_text xs @ stdout_text ys"
  by (simp add: stdout_text_def)

lemma rendered_eq: "rendered E m w = ctime_now E w @ stdout_text (table_events m)"
  by (simp add: rendered_def DeviceManager_print_eq) (simp add: stdout_text_def)

lemma moveCursorTo_excess: "excess (moveCursorTo x y w) = excess w"
  by (simp add: moveCursorTo_def)

lemma DeviceManager_print_excess: "excess (DeviceManager_print E m w) = excess w"
  by (simp add: DeviceManager_print_eq Printf_excess [OF table_events_Printf])

lemma DeviceManager_update_excess: "excess (snd (snd (DeviceManager_update E m w))) = excess w"
  by (simp add: DeviceManager_update_def Let_def case_prod_beta update_loop_excess)

lemma main_body_excess: "excess (snd (main_body E m w)) = excess w"
  by (simp add: main_body_def Let_def case_prod_beta DeviceManager_update_excess
        DeviceManager_print_excess moveCursorTo_excess)

lemma rounds_excess: "excess (snd (rounds E n s)) = excess (snd s)"
  by (induction n arbitrary: s) (simp_all add: main_body_excess)

section \<open>Lemmas about runs in which no update completes\<close>

lemma GPUDevice_update_decisive:
  "\<exists>evs. snd (snd (GPUDevice_update E d w)) = w @ evs \<and> list_ex decisive evs"
  by (rule GPUDevice_update_cases [where E = E and d = d and w = w])
     (simp_all add: decisive_def NVML_SUCCESS_def)

lemma update_loop_decisive:
  "\<exists>evs. snd (snd (update_loop E ds v w)) = w @ evs
         \<and> (fst (snd (update_loop E ds v w)) \<or> \<not> v \<or> list_ex decisive evs)"
proof (induction ds arbitrary: w)
  case Nil
  show ?case by simp
next
  case (Cons d ds)
  obtain r d' w1 where u: "GPUDevice_update E d w = (r, d', w1)"
    by (cases "GPUDevice_update E d w")
  obtain evs1 where e1: "w1 = w @ evs1" "list_ex decisive evs1"
    using GPUDevice_update_decisive [of E d w] u by auto
  obtain evs2 where e2: "snd (snd (update_loop E ds v w1)) = w1 @ evs2"
    using Cons [of w1] by blast
  show ?case
  proof (cases "r = 0")
    case True
    with u e1 e2 show ?thesis
      by (intro exI [of _ "evs1 @ evs2"]) (simp add: Let_def case_prod_beta)
  next
    case False
    with u e1 show ?thesis
      by (intro exI [of _ evs1]) (simp add: Let_def)
  qed
qed

lemma main_body_decisive:
  "\<exists>evs. snd (main_body E m w) = w @ evs
         \<and> (valid (fst (main_body E m w)) \<or> \<not> valid m \<or> list_ex decisive evs)"
proof -
  define w1 where "w1 = DeviceManager_print E m (moveCursorTo 0 0 w) @ [Sleep_for 500]"
  obtain evs0 where e0: "w1 = w @ evs0"
    by (simp add: w1_def DeviceManager_print_eq moveCursorTo_def)
  obtain evs where e: "snd (snd (update_loop E (devices m) (valid m) w1)) = w1 @ evs"
      "fst (snd (update_loop E (devices m) (valid m) w1)) \<or> \<not> valid m \<or> list_ex decisive evs"
    using update_loop_decisive [of E "devices m" "valid m" w1] by blast
  have "snd (main_body E m w) = snd (snd (update_loop E (devices m) (valid m) w1))"
    "valid (fst (main_body E m w)) = fst (snd (update_loop E (devices m) (valid m) w1))"
    by (simp_all add: main_body_def DeviceManager_update_def Let_def case_prod_beta w1_def)
  with e0 e show ?thesis
    by (intro exI [of _ "evs0 @ evs"]) auto
qed

lemma rounds_decisive:
  assumes "list_ex decisive (snd s) \<or> valid (fst s)" "\<not> valid (fst (rounds E n s))"
  shows "list_ex decisive (snd (rounds E n s))"
  using assms
proof (induction n arbitrary: s)
  case 0
  then show ?case by auto
next
  case (Suc n)
  obtain evs where e: "snd (main_body E (fst s) (snd s)) = snd s @ evs"
      "valid (fst (main_body E (fst s) (snd s))) \<or> \<not> valid (fst s) \<or> list_ex decisive evs"
    using main_body_decisive [of E "fst s" "snd s"] by blast
  with Suc.prems(1) have "list_ex decisive (snd (main_body E (fst s) (snd s)))
      \<or> valid (fst (main_body E (fst s) (snd s)))"
    by auto
  with Suc.prems(2) Suc.IH [of "main_body E (fst s) (snd s)"] show ?case
    by simp
qed

lemma DeviceManager_ctor_decisive:
  "list_ex decisive (snd (DeviceManager_ctor E w)) \<or> valid (fst (DeviceManager_ctor E w))"
  by (rule DeviceManager_init_cases [where E = E and w = w
        and m = "\<lparr>driverVersion = ''Unknown'', numDevices = 0, devices = [], valid = False\<rparr>"])
     (simp_all add: DeviceManager_ctor_def Let_def decisive_def NVML_SUCCESS_def)

section \<open>The claims\<close>

subsection \<open>C1\<close>

text \<open>
  C1 (as the code has it). When \<open>nvmlInit\<close> succeeds, \<open>valid\<close> is true after
  construction exactly when neither the driver-version query nor the device-count query
  failed. What happens to the devices during enumeration does not enter: no event of a
  device method is a failed system query.
\<close>

theorem valid_after_construction:
  assumes "nvmlInit E w = NVML_SUCCESS"
  shows "valid (fst (DeviceManager_ctor E w)) =
           (\<not> list_ex sys_query_failed (drop (length w) (snd (DeviceManager_ctor E w))))"
proof (rule DeviceManager_init_cases [where E = E and w = w
        and m = "\<lparr>driverVersion = ''Unknown'', numDevices = 0, devices = [], valid = False\<rparr>"])
  fix v n
  assume eq: "DeviceManager_init E \<lparr>driverVersion = ''Unknown'', numDevices = 0, devices = [], valid = False\<rparr> w =
         (0, \<lparr>driverVersion = ''Unknown'', numDevices = 0, devices = [], valid = False\<rparr>\<lparr>driverVersion := v, numDevices := n,
               devices := fst (init_loop E 0 (unat n) (resize (unat n) (devices \<lparr>driverVersion = ''Unknown'', numDevices = 0, devices = [], valid = False\<rparr>))
                 (w @ [Call_nvmlInit 0, Call_nvmlSystemGetDriverVersion 0 v, Call_nvmlDeviceGetCount 0 n]))\<rparr>,
          snd (init_loop E 0 (unat n) (resize (unat n) (devices \<lparr>driverVersion = ''Unknown'', numDevices = 0, devices = [], valid = False\<rparr>))
                 (w @ [Call_nvmlInit 0, Call_nvmlSystemGetDriverVersion 0 v, Call_nvmlDeviceGetCount 0 n])))"
  obtain evs where evs: "snd (init_loop E 0 (unat n) (resize (unat n) [])
        (w @ [Call_nvmlInit 0, Call_nvmlSystemGetDriverVersion 0 v, Call_nvmlDeviceGetCount 0 n])) =
      (w @ [Call_nvmlInit 0, Call_nvmlSystemGetDriverVersion 0 v, Call_nvmlDeviceGetCount 0 n]) @ evs"
      "list_all device_event evs"
    using init_loop_events by blast
  from evs(2) have "\<not> list_ex sys_query_failed evs"
    by (rule sys_query_failed_not_device)
  with eq evs(1) show ?thesis
    by (simp add: DeviceManager_ctor_def Let_def NVML_SUCCESS_def)
qed (use assms in \<open>simp_all add: DeviceManager_ctor_def Let_def NVML_SUCCESS_def\<close>)

theorem valid_after_construction_witness:
  "nvmlInit no_handles [] = NVML_SUCCESS
   \<and> list_ex fatal_failure (snd (DeviceManager_ctor no_handles []))
   \<and> valid (fst (DeviceManager_ctor no_handles []))"
proof -
  have h: "nvmlInit no_handles [] = NVML_SUCCESS"
    by (simp add: no_handles_def healthy_def)
  have "list_ex fatal_failure (snd (DeviceManager_ctor no_handles []))
      \<and> \<not> list_ex sys_query_failed (drop (length []) (snd (DeviceManager_ctor no_handles [])))"
    by (simp add: eval_defs no_handles_def healthy_def)
  with h valid_after_construction [OF h] show ?thesis
    by simp
qed

text \<open>
  C1 as stated fails in both directions: with the device count unreadable, \<open>nvmlInit\<close>
  has succeeded and \<open>valid\<close> is false; with the driver not loaded, \<open>nvmlInit\<close> has
  failed and \<open>valid\<close> is true (\<open>init\<close> returns 0 after printing its message).
\<close>

theorem valid_after_construction_counterexample:
  "Call_nvmlInit NVML_SUCCESS \<in> set (snd (DeviceManager_ctor no_count []))
   \<and> \<not> valid (fst (DeviceManager_ctor no_count []))
   \<and> Call_nvmlInit NVML_ERROR_DRIVER_NOT_LOADED \<in> set (snd (DeviceManager_ctor no_driver []))
   \<and> valid (fst (DeviceManager_ctor no_driver []))"
  by (simp add: eval_defs no_driver_def no_count_def healthy_def)

subsection \<open>C2\<close>

text \<open>
  C2 (as the code has it). \<open>DeviceManager::print\<close> calls nothing of the library, so it
  never refreshes, and it returns nothing but the history. What it writes is the
  \<open>ctime\<close> line of the current time followed by text that depends on the manager
  alone: two calls on the same manager write the same bytes when the clock reads the same,
  and always the same bytes after the time line.
\<close>

theorem DeviceManager_print_pure:
  "filter library_call (DeviceManager_print E m w) = filter library_call w
   \<and> (ctime_now E w = ctime_now E' w' \<longrightarrow> rendered E m w = rendered E' m w')
   \<and> take (length (ctime_now E w)) (rendered E m w) = ctime_now E w
   \<and> drop (length (ctime_now E w)) (rendered E m w) = drop (length (ctime_now E' w')) (rendered E' m w')"
  by (simp add: rendered_eq DeviceManager_print_eq Printf_not_library_call [OF table_events_Printf])

theorem DeviceManager_print_pure_witness:
  "ctime_now healthy [] = ctime_now healthy (DeviceManager_print healthy three_gpus [])
   \<and> rendered healthy three_gpus [] = rendered healthy three_gpus (DeviceManager_print healthy three_gpus [])
   \<and> filter library_call (DeviceManager_print healthy three_gpus []) = []"
proof -
  have h: "ctime_now healthy [] = ctime_now healthy (DeviceManager_print healthy three_gpus [])"
    by (simp add: healthy_def)
  with DeviceManager_print_pure [of healthy three_gpus "[]" healthy "DeviceManager_print healthy three_gpus []"]
  show ?thesis by simp
qed

text \<open>
  C2 as stated fails: on a machine whose clock moves between the two calls, two calls of
  \<open>print\<close> on the same manager with no refresh between them write different bytes.
\<close>

theorem DeviceManager_print_counterexample:
  "rendered ticking three_gpus [] \<noteq> rendered ticking three_gpus (DeviceManager_print ticking three_gpus [])"
  by (simp add: rendered_eq DeviceManager_print_eq ticking_def healthy_def)

subsection \<open>C3\<close>

text \<open>
  C3 (as the code has it). Whenever main returns, it returns 0; and it does return as soon
  as some number of rounds of the loop (none, when construction already fails) leaves the
  manager invalid.
\<close>

theorem main_exit_code:
  "(main E = Some (rc, tr) \<longrightarrow> rc = 0)
   \<and> (\<not> valid (fst (rounds E n (DeviceManager_ctor E []))) \<longrightarrow> (\<exists>tr. main E = Some (0, tr)))"
  using main_SomeD [of E rc tr] main_exits [of E n] by blast

theorem main_exit_code_witness:
  "\<not> valid (fst (rounds overheats 1 (DeviceManager_ctor overheats [])))
   \<and> main overheats = Some (0, snd (the (main overheats)))"
proof -
  have h: "\<not> valid (fst (rounds overheats 1 (DeviceManager_ctor overheats [])))"
    by (simp add: eval_defs eval_main_defs overheats_def healthy_def)
  with main_exit_code [of overheats 0 "snd (the (main overheats))" 1]
  obtain tr where "main overheats = Some (0, tr)"
    by blast
  with h show ?thesis by simp
qed

text \<open>
  C3 as stated fails: a run in which the temperature query fails with code 999 during a
  refresh, and a run in which the device count cannot be read during initialization, both
  end with exit code 0.
\<close>

theorem main_exit_code_counterexample:
  "map_option fst (main overheats) = Some 0
   \<and> Call_nvmlDeviceGetTemperature 1 NVML_ERROR_UNKNOWN 54 \<in> set (snd (the (main overheats)))
   \<and> map_option fst (main no_count) = Some 0
   \<and> Call_nvmlDeviceGetCount NVML_ERROR_UNKNOWN 0 \<in> set (snd (the (main no_count)))
   \<and> NVML_ERROR_UNKNOWN \<noteq> 0"
  by (simp add: main_def main_loop.simps eval_defs eval_main_defs overheats_def no_count_def healthy_def)

subsection \<open>C4\<close>

text \<open>
  C4. Take a refresh cycle in which the devices before position \<open>k\<close> were refreshed
  without stopping the loop, and in which the temperature query of device \<open>k\<close> fails.
  Then the update of device \<open>k\<close> returns a non-zero code, \<open>DeviceManager::update\<close> clears
  \<open>valid\<close> and returns non-zero, the cycle ends with the events of that device's update
  (nothing is called after it), and the devices after position \<open>k\<close> are as they were.
\<close>

theorem temperature_failure_stops_cycle:
  assumes pre: "update_loop E (take k (devices m)) True w = (ds0, True, w0)"
    and k: "k < length (devices m)"
    and t: "Call_nvmlDeviceGetTemperature h r t
              \<in> set (drop (length w0) (snd (snd (GPUDevice_update E (devices m ! k) w0))))"
    and r: "r \<noteq> NVML_SUCCESS"
  shows "fst (GPUDevice_update E (devices m ! k) w0) \<noteq> 0
       \<and> \<not> valid (fst (snd (DeviceManager_update E m w)))
       \<and> fst (DeviceManager_update E m w) \<noteq> 0
       \<and> snd (snd (DeviceManager_update E m w)) = snd (snd (GPUDevice_update E (devices m ! k) w0))
       \<and> drop (Suc k) (devices (fst (snd (DeviceManager_update E m w)))) = drop (Suc k) (devices m)"
proof -
  obtain rc d' w' where u: "GPUDevice_update E (devices m ! k) w0 = (rc, d', w')"
    by (cases "GPUDevice_update E (devices m ! k) w0")
  have rc: "rc \<noteq> 0"
    using GPUDevice_update_temperature_failed [OF t r] r u by (simp add: NVML_SUCCESS_def)
  have split: "devices m = take k (devices m) @ (devices m ! k) # drop (Suc k) (devices m)"
    using k by (simp add: id_take_nth_drop)
  have len: "length ds0 = k"
    using update_loop_length [of E "take k (devices m)" True w] pre k by simp
  have "update_loop E (take k (devices m) @ (devices m ! k) # drop (Suc k) (devices m)) (valid m) w =
          (ds0 @ d' # drop (Suc k) (devices m), False, w')"
    using u rc by (simp add: update_loop_append [OF pre] Let_def)
  with split have "update_loop E (devices m) (valid m) w =
          (ds0 @ d' # drop (Suc k) (devices m), False, w')"
    by simp
  with u rc len show ?thesis
    by (simp add: DeviceManager_update_def Let_def)
qed

theorem temperature_failure_stops_cycle_witness:
  "update_loop second_sensor_broken (take 1 (devices three_gpus)) True [] =
     (fst (update_loop second_sensor_broken (take 1 (devices three_gpus)) True []), True,
      snd (snd (update_loop second_sensor_broken (take 1 (devices three_gpus)) True [])))
   \<and> Call_nvmlDeviceGetTemperature 2 NVML_ERROR_UNKNOWN 0
       \<in> set (drop (length (snd (snd (update_loop second_sensor_broken (take 1 (devices three_gpus)) True []))))
            (snd (snd (GPUDevice_update second_sensor_broken (devices three_gpus ! 1)
               (snd (snd (update_loop second_sensor_broken (take 1 (devices three_gpus)) True [])))))))
   \<and> \<not> valid (fst (snd (DeviceManager_update second_sensor_broken three_gpus [])))
   \<and> fst (DeviceManager_update second_sensor_broken three_gpus []) \<noteq> 0
   \<and> drop 2 (devices (fst (snd (DeviceManager_update second_sensor_broken three_gpus [])))) =
       [GPUDevice_ctor\<lparr>index := 2, handle := 3\<rparr>]
   \<and> length (filter is_shutdown (snd (snd (DeviceManager_update second_sensor_broken three_gpus [])))) = 1"
proof -
  have w0: "update_loop second_sensor_broken (take 1 (devices three_gpus)) True [] =
     ([GPUDevice_ctor\<lparr>index := 0, handle := 1, fanSpeed := 35,
          memory := \<lparr>total_bytes = 8589934592, free = 6442450944, used = 2147483648\<rparr>,
          power_fld := 15, temperature := 54, utilization := \<lparr>gpu = 97, memory_rate = 40\<rparr>\<rparr>], True,
      [Call_nvmlDeviceGetFanSpeed 1 0 35,
       Call_nvmlDeviceGetMemoryInfo 1 0 \<lparr>total_bytes = 8589934592, free = 6442450944, used = 2147483648\<rparr>,
       Call_nvmlDeviceGetPowerUsage 1 0 15000,
       Call_nvmlDeviceGetTemperature 1 0 54,
       Call_nvmlDeviceGetUtilizationRates 1 0 \<lparr>gpu = 97, memory_rate = 40\<rparr>])"
    by (simp add: three_gpus_def second_sensor_broken_def healthy_def GPUDevice_update_def
          GPUDevice_ctor_def Let_def checkError_def NVML_SUCCESS_def NVML_ERROR_UNKNOWN_def)
  have h1: "update_loop second_sensor_broken (take 1 (devices three_gpus)) True [] =
     (fst (update_loop second_sensor_broken (take 1 (devices three_gpus)) True []), True,
      snd (snd (update_loop second_sensor_broken (take 1 (devices three_gpus)) True [])))"
    unfolding w0 by simp
  have h2: "1 < length (devices three_gpus)"
    by (simp add: three_gpus_def)
  have h3: "Call_nvmlDeviceGetTemperature 2 NVML_ERROR_UNKNOWN 0
       \<in> set (drop (length (snd (snd (update_loop second_sensor_broken (take 1 (devices three_gpus)) True []))))
            (snd (snd (GPUDevice_update second_sensor_broken (devices three_gpus ! 1)
               (snd (snd (update_loop second_sensor_broken (take 1 (devices three_gpus)) True [])))))))"
    unfolding w0
    by (simp add: three_gpus_def second_sensor_broken_def healthy_def GPUDevice_update_def
          GPUDevice_ctor_def Let_def checkError_def NVML_SUCCESS_def NVML_ERROR_UNKNOWN_def)
  have h4: "NVML_ERROR_UNKNOWN \<noteq> NVML_SUCCESS"
    by (simp add: NVML_SUCCESS_def NVML_ERROR_UNKNOWN_def)
  have sh: "length (filter is_shutdown (snd (snd (GPUDevice_update second_sensor_broken (devices three_gpus ! 1)
               (snd (snd (update_loop second_sensor_broken (take 1 (devices three_gpus)) True []))))))) = 1"
    unfolding w0
    by (simp add: three_gpus_def second_sensor_broken_def healthy_def GPUDevice_update_def
          GPUDevice_ctor_def Let_def checkError_def NVML_SUCCESS_def NVML_ERROR_UNKNOWN_def)
  have d: "drop 2 (devices three_gpus) = [GPUDevice_ctor\<lparr>index := 2, handle := 3\<rparr>]"
    by (simp add: three_gpus_def)
  show ?thesis
    using h1 h3 sh d temperature_failure_stops_cycle [OF h1 h2 h3 h4]
    by (simp add: numeral_2_eq_2)
qed

subsection \<open>C5\<close>

text \<open>
  C5 (as far as the code goes). When the fan query fails, the device stores
  \<open>unsigned(-1)\<close> and the code is reset, so no \<open>checkError\<close> fires for it. When no
  required query fails either, the refresh reaches the end of the function, which has no
  return statement: what the caller reads is \<open>no_return_value\<close>, not a success code
  of the program's choosing. On the fanless machine the caller reads 1.
\<close>

theorem GPUDevice_update_fanless:
  "snd (snd (GPUDevice_update fanless GPUDevice_ctor [])) =
     [Call_nvmlDeviceGetFanSpeed 0 NVML_ERROR_NOT_SUPPORTED 0,
      Call_nvmlDeviceGetMemoryInfo 0 NVML_SUCCESS
        \<lparr>total_bytes = 8589934592, free = 6442450944, used = 2147483648\<rparr>,
      Call_nvmlDeviceGetPowerUsage 0 NVML_SUCCESS 15000,
      Call_nvmlDeviceGetTemperature 0 NVML_SUCCESS 54,
      Call_nvmlDeviceGetUtilizationRates 0 NVML_SUCCESS \<lparr>gpu = 97, memory_rate = 40\<rparr>]
   \<and> fanSpeed (fst (snd (GPUDevice_update fanless GPUDevice_ctor []))) = - 1
   \<and> fst (GPUDevice_update fanless GPUDevice_ctor []) = 1
   \<and> fst (GPUDevice_update fanless GPUDevice_ctor []) \<noteq> NVML_SUCCESS"
  by (simp add: GPUDevice_update_def fanless_def healthy_def Let_def checkError_def
        NVML_SUCCESS_def NVML_ERROR_NOT_SUPPORTED_def GPUDevice_ctor_def)

subsection \<open>C6\<close>

text \<open>
  C6 (as the code has it). Take a run that returns from main and in which no update ran to
  the end of its body, so that the run never meets the missing return statement of
  \<open>GPUDevice::update\<close> and nothing in it is left to the implementation. In such a run
  \<open>nvmlShutdown\<close> is called once for every fatal failure (by \<open>checkError\<close>) and once
  more by the destructor, which is the last event of the run; and since such a run has a
  fatal failure, that is at least twice.
\<close>

theorem shutdown_calls:
  assumes "main E = Some (rc, tr)" and "\<not> list_ex update_completed tr"
  shows "length (filter is_shutdown tr) = 1 + length (filter fatal_failure tr)
       \<and> 2 \<le> length (filter is_shutdown tr)
       \<and> is_shutdown (last tr)"
proof -
  from main_SomeD [OF assms(1)] obtain n where
    tr: "tr = DeviceManager_dtor E (snd (rounds E n (DeviceManager_ctor E [])))"
    and inv: "\<not> valid (fst (rounds E n (DeviceManager_ctor E [])))"
    by blast
  have "excess tr = 1"
    by (simp add: tr DeviceManager_dtor_def rounds_excess DeviceManager_ctor_excess)
  then have count: "length (filter is_shutdown tr) = 1 + length (filter fatal_failure tr)"
    by (simp add: excess_def)
  have "list_ex decisive (snd (rounds E n (DeviceManager_ctor E [])))"
    using DeviceManager_ctor_decisive [of E "[]"] inv by (rule rounds_decisive)
  then have "list_ex decisive tr"
    by (simp add: tr DeviceManager_dtor_def)
  with assms(2) have "list_ex fatal_failure tr"
    by (auto simp: list_ex_iff decisive_def)
  then have "filter fatal_failure tr \<noteq> []"
    by (auto simp: list_ex_iff filter_empty_conv)
  then have "1 \<le> length (filter fatal_failure tr)"
    by (cases "filter fatal_failure tr") simp_all
  moreover have "is_shutdown (last tr)"
    by (simp add: tr DeviceManager_dtor_def)
  ultimately show ?thesis
    using count by simp
qed

theorem shutdown_calls_witness:
  "main sensor_dead = Some (0, snd (the (main sensor_dead)))
   \<and> \<not> list_ex update_completed (snd (the (main sensor_dead)))
   \<and> length (filter fatal_failure (snd (the (main sensor_dead)))) = 2
   \<and> length (filter is_shutdown (snd (the (main sensor_dead)))) = 3
   \<and> is_shutdown (last (snd (the (main sensor_dead))))"
proof -
  have h: "main sensor_dead = Some (0, snd (the (main sensor_dead)))"
    by (simp add: main_def main_loop.simps eval_defs eval_main_defs sensor_dead_def healthy_def)
  have c: "\<not> list_ex update_completed (snd (the (main sensor_dead)))"
    by (simp add: main_def main_loop.simps eval_defs eval_main_defs sensor_dead_def healthy_def)
  have f: "length (filter fatal_failure (snd (the (main sensor_dead)))) = 2"
    by (simp add: main_def main_loop.simps eval_defs eval_main_defs sensor_dead_def healthy_def)
  from h c f shutdown_calls [OF h c] show ?thesis
    by simp
qed

text \<open>
  C6 as stated fails: in a run with a fatal error during initialization, in which no
  update is ever called, the library is shut down twice, by \<open>checkError\<close> and by the
  destructor.
\<close>

theorem shutdown_calls_counterexample:
  "main no_count \<noteq> None
   \<and> \<not> list_ex update_completed (snd (the (main no_count)))
   \<and> list_ex fatal_failure (snd (the (main no_count)))
   \<and> length (filter is_shutdown (snd (the (main no_count)))) = 2"
  by (simp add: main_def main_loop.simps eval_defs eval_main_defs no_count_def healthy_def)

subsection \<open>C7\<close>

text \<open>
  C7. When \<open>init\<close> has queried the name with success and found \<open>s\<close>, the stored name
  is \<open>s\<close> followed by 22 - length s spaces: exactly 22 characters when \<open>s\<close> is shorter
  than 22, and \<open>s\<close> itself when it has 22 characters or more.
\<close>

theorem GPUDevice_init_name:
  assumes "Call_nvmlDeviceGetName h NVML_SUCCESS s
             \<in> set (drop (length w) (snd (snd (GPUDevice_init E d w))))"
  shows "name (fst (snd (GPUDevice_init E d w))) = s @ replicate (22 - length s) (CHR '' '')
       \<and> (length s < 22 \<longrightarrow> length (name (fst (snd (GPUDevice_init E d w)))) = 22)
       \<and> (22 \<le> length s \<longrightarrow> name (fst (snd (GPUDevice_init E d w))) = s)"
proof -
  have "name (fst (snd (GPUDevice_init E d w))) = pad_name s"
  proof (rule GPUDevice_init_cases [where E = E and d = d and w = w])
    fix r h' p sh
    assume "r \<noteq> 0" "GPUDevice_init E d w =
         (r, d\<lparr>handle := h'\<rparr>,
          w @ [Call_nvmlDeviceGetHandleByIndex (index d) r h', Printf p, Call_nvmlShutdown sh])"
    with assms show ?thesis by simp
  next
    fix h' r n p sh
    assume "r \<noteq> 0" "GPUDevice_init E d w =
         (r, d\<lparr>handle := h'\<rparr>,
          w @ [Call_nvmlDeviceGetHandleByIndex (index d) 0 h', Call_nvmlDeviceGetName h' r n,
               Printf p, Call_nvmlShutdown sh])"
    with assms show ?thesis by (simp add: NVML_SUCCESS_def)
  next
    fix h' n r cur pend msgs
    assume m: "set msgs \<subseteq> range Printf"
      and eq: "GPUDevice_init E d w =
         GPUDevice_update E (d\<lparr>handle := h', name := pad_name n, dmCurrent := cur, dmPending := pend\<rparr>)
           (w @ [Call_nvmlDeviceGetHandleByIndex (index d) 0 h', Call_nvmlDeviceGetName h' 0 n,
                 Call_nvmlDeviceGetDriverModel h' r cur pend] @ msgs)"
    have nm: "name (fst (snd (GPUDevice_init E d w))) = pad_name n"
      by (simp add: eq GPUDevice_update_identity)
    have "n = s"
      using assms m unfolding eq
      by (rule_tac GPUDevice_update_cases [where E = E and w = "w @ [Call_nvmlDeviceGetHandleByIndex (index d) 0 h', Call_nvmlDeviceGetName h' 0 n,
                 Call_nvmlDeviceGetDriverModel h' r cur pend] @ msgs" and d = "d\<lparr>handle := h', name := pad_name n, dmCurrent := cur, dmPending := pend\<rparr>"])
         (auto simp: NVML_SUCCESS_def)
    with nm show ?thesis by simp
  qed
  then show ?thesis
    by (simp add: pad_name_eq GPU_NAME_TEXT_FIELD_SIZE_def)
qed

theorem GPUDevice_init_name_witness:
  "Call_nvmlDeviceGetName 1 NVML_SUCCESS ''Tesla K80''
     \<in> set (drop (length []) (snd (snd (GPUDevice_init healthy GPUDevice_ctor []))))
   \<and> name (fst (snd (GPUDevice_init healthy GPUDevice_ctor []))) = ''Tesla K80             ''
   \<and> length (name (fst (snd (GPUDevice_init healthy GPUDevice_ctor [])))) = 22
   \<and> Call_nvmlDeviceGetName 1 NVML_SUCCESS ''NVIDIA GeForce RTX 4090 Laptop GPU''
     \<in> set (drop (length []) (snd (snd (GPUDevice_init
          (healthy\<lparr>nvmlDeviceGetName := (\<lambda>w h. (NVML_SUCCESS, ''NVIDIA GeForce RTX 4090 Laptop GPU''))\<rparr>)
          GPUDevice_ctor []))))
   \<and> name (fst (snd (GPUDevice_init
          (healthy\<lparr>nvmlDeviceGetName := (\<lambda>w h. (NVML_SUCCESS, ''NVIDIA GeForce RTX 4090 Laptop GPU''))\<rparr>)
          GPUDevice_ctor []))) = ''NVIDIA GeForce RTX 4090 Laptop GPU''"
proof -
  have h1: "Call_nvmlDeviceGetName 1 NVML_SUCCESS ''Tesla K80''
     \<in> set (drop (length []) (snd (snd (GPUDevice_init healthy GPUDevice_ctor []))))"
    by (simp add: GPUDevice_init_def GPUDevice_update_def healthy_def Let_def checkError_def
          NVML_SUCCESS_def NVML_ERROR_NOT_SUPPORTED_def GPUDevice_ctor_def)
  have h2: "Call_nvmlDeviceGetName 1 NVML_SUCCESS ''NVIDIA GeForce RTX 4090 Laptop GPU''
     \<in> set (drop (length []) (snd (snd (GPUDevice_init
          (healthy\<lparr>nvmlDeviceGetName := (\<lambda>w h. (NVML_SUCCESS, ''NVIDIA GeForce RTX 4090 Laptop GPU''))\<rparr>)
          GPUDevice_ctor []))))"
    by (simp add: GPUDevice_init_def GPUDevice_update_def healthy_def Let_def checkError_def
          NVML_SUCCESS_def NVML_ERROR_NOT_SUPPORTED_def GPUDevice_ctor_def)
  show ?thesis
    using h1 h2 GPUDevice_init_name [OF h1] GPUDevice_init_name [OF h2]
    by (simp add: numeral_eq_Suc)
qed

subsection \<open>C8\<close>

text \<open>
  C8. When the power query of a refresh succeeds and leaves \<open>mw\<close> milliwatts, the device
  stores \<open>mw\<close> divided by 1000 in unsigned 32-bit arithmetic, which is the integer quotient
  of the two numbers (rounded towards zero).
\<close>

theorem GPUDevice_update_power:
  assumes "Call_nvmlDeviceGetPowerUsage h NVML_SUCCESS mw
             \<in> set (drop (length w) (snd (snd (GPUDevice_update E d w))))"
  shows "power_fld (fst (snd (GPUDevice_update E d w))) = mw div 1000
       \<and> unat (power_fld (fst (snd (GPUDevice_update E d w)))) = unat mw div 1000"
proof -
  have "power_fld (fst (snd (GPUDevice_update E d w))) = mw div 1000"
    using assms
    by (rule_tac GPUDevice_update_cases [where E = E and d = d and w = w])
       (auto simp: NVML_SUCCESS_def)
  then show ?thesis
    by (simp add: unat_div)
qed

theorem GPUDevice_update_power_witness:
  "Call_nvmlDeviceGetPowerUsage 0 NVML_SUCCESS 15000
     \<in> set (drop (length []) (snd (snd (GPUDevice_update healthy GPUDevice_ctor []))))
   \<and> unat (power_fld (fst (snd (GPUDevice_update healthy GPUDevice_ctor [])))) = 15
   \<and> Call_nvmlDeviceGetPowerUsage 0 NVML_SUCCESS 15999
     \<in> set (drop (length []) (snd (snd (GPUDevice_update
          (healthy\<lparr>nvmlDeviceGetPowerUsage := (\<lambda>w h old. (NVML_SUCCESS, 15999))\<rparr>) GPUDevice_ctor []))))
   \<and> unat (power_fld (fst (snd (GPUDevice_update
          (healthy\<lparr>nvmlDeviceGetPowerUsage := (\<lambda>w h old. (NVML_SUCCESS, 15999))\<rparr>) GPUDevice_ctor [])))) = 15"
proof -
  have h1: "Call_nvmlDeviceGetPowerUsage 0 NVML_SUCCESS 15000
     \<in> set (drop (length []) (snd (snd (GPUDevice_update healthy GPUDevice_ctor []))))"
    by (simp add: GPUDevice_update_def healthy_def Let_def checkError_def NVML_SUCCESS_def GPUDevice_ctor_def)
  have h2: "Call_nvmlDeviceGetPowerUsage 0 NVML_SUCCESS 15999
     \<in> set (drop (length []) (snd (snd (GPUDevice_update
          (healthy\<lparr>nvmlDeviceGetPowerUsage := (\<lambda>w h old. (NVML_SUCCESS, 15999))\<rparr>) GPUDevice_ctor []))))"
    by (simp add: GPUDevice_update_def healthy_def Let_def checkError_def NVML_SUCCESS_def GPUDevice_ctor_def)
  show ?thesis
    using h1 h2 GPUDevice_update_power [OF h1] GPUDevice_update_power [OF h2]
    by simp
qed

subsection \<open>C9\<close>

text \<open>
  C9. After construction the index of every device is its position in the vector (the
  vector is empty, or has as many devices as the library counted). One update of a device,
  one \<open>DeviceManager::update\<close> and any number of rounds of the main loop leave every
  index as it is.
\<close>

theorem index_is_position:
  "map index (devices (fst (DeviceManager_ctor E w))) =
     map int [0..<length (devices (fst (DeviceManager_ctor E w)))]
   \<and> (devices (fst (DeviceManager_ctor E w)) = []
      \<or> length (devices (fst (DeviceManager_ctor E w))) = unat (numDevices (fst (DeviceManager_ctor E w))))
   \<and> index (fst (snd (GPUDevice_update E d w'))) = index d
   \<and> map index (devices (fst (snd (DeviceManager_update E m w')))) = map index (devices m)
   \<and> map index (devices (fst (rounds E n (DeviceManager_ctor E w)))) =
       map int [0..<length (devices (fst (DeviceManager_ctor E w)))]"
  using DeviceManager_ctor_index [of E w]
  by (simp add: GPUDevice_update_identity DeviceManager_update_index rounds_index)

theorem index_is_position_witness:
  "map index (devices (fst (rounds three_gpu_machine 2 (DeviceManager_ctor three_gpu_machine [])))) = [0, 1, 2]"
proof -
  have "length (devices (fst (DeviceManager_ctor three_gpu_machine []))) = 3"
    by (simp add: eval_defs three_gpu_machine_def healthy_def)
  with index_is_position [where E = three_gpu_machine and w = "[]" and n = 2]
  show ?thesis
    by (simp add: upt_rec)
qed

subsection \<open>C10\<close>

text \<open>
  C10. A refresh writes only the metric fields: the device after \<open>update\<close> is the device
  before it with new values in fanSpeed, memory, power, temperature and utilization; name,
  handle, dmCurrent and dmPending are the same as before, whatever the library answers
  and however the refresh ends. The same holds device by device for a whole cycle of
  \<open>DeviceManager::update\<close>.
\<close>

theorem GPUDevice_update_frame:
  "fst (snd (GPUDevice_update E d w)) =
     d\<lparr>fanSpeed := fanSpeed (fst (snd (GPUDevice_update E d w))),
       memory := memory (fst (snd (GPUDevice_update E d w))),
       power_fld := power_fld (fst (snd (GPUDevice_update E d w))),
       temperature := temperature (fst (snd (GPUDevice_update E d w))),
       utilization := utilization (fst (snd (GPUDevice_update E d w)))\<rparr>
   \<and> name (fst (snd (GPUDevice_update E d w))) = name d
   \<and> handle (fst (snd (GPUDevice_update E d w))) = handle d
   \<and> dmCurrent (fst (snd (GPUDevice_update E d w))) = dmCurrent d
   \<and> dmPending (fst (snd (GPUDevice_update E d w))) = dmPending d
   \<and> map (\<lambda>d. (name d, handle d, dmCurrent d, dmPending d))
        (devices (fst (snd (DeviceManager_update E m w)))) =
      map (\<lambda>d. (name d, handle d, dmCurrent d, dmPending d)) (devices m)"
  using GPUDevice_update_frame_aux [of E d w] GPUDevice_update_identity [of E d w]
  by (simp add: DeviceManager_update_def Let_def case_prod_beta update_loop_map
        GPUDevice_update_identity)

end
